theory Spec2Isabelle
  imports
    Main
    "HOL-Library.Char_ord"
    "HOL-Library.List_Lexorder"
    "HOL-Library.Sublist"
begin

section \<open>Package method: methods that may be generated for a Go type\<close>

text \<open>
  This theory embeds \<^verbatim>\<open>internal/method/method.go\<close>. The package builds method
  declarations with the code builder \<^verbatim>\<open>jen\<close> and inspects the analysed program
  through \<^verbatim>\<open>go/types\<close> and \<^verbatim>\<open>go/token\<close>. Those three libraries are not part of
  the package: what the package reads from them is data of the model (an object's name and
  type, a method set, the position table of a file set), and what it writes through
  \<^verbatim>\<open>jen\<close> is kept as the sequence of builder calls it makes.

  Go strings are byte sequences compared bytewise, which is the order of \<^typ>\<open>string\<close>
  given by \<^verbatim>\<open>Char_ord\<close> and \<^verbatim>\<open>List_Lexorder\<close>.
\<close>

subsection \<open>What the package reads: go/token and go/types\<close>

text \<open>\<^verbatim>\<open>token.Position\<close>, and a \<^verbatim>\<open>token.FileSet\<close> as its \<^verbatim>\<open>Position\<close> method.\<close>

record Position =
  Filename :: string
  Line :: nat
  Column :: nat

type_synonym Pos = nat

type_synonym FileSet = "Pos \<Rightarrow> Position"

text \<open>
  \<^verbatim>\<open>types.Type\<close>, as far as the package meets one: a named type, the signature of a
  method, and \<^verbatim>\<open>types.NewPointer\<close> of a type.
\<close>

datatype Type = Named string | Signature | NewPointer Type

text \<open>
  A \<^verbatim>\<open>types.Object\<close>: the package calls \<^verbatim>\<open>Name()\<close>, \<^verbatim>\<open>Type()\<close> and
  \<^verbatim>\<open>Pos()\<close>. The nil value of the interface is no object and is not a value of the
  model.
\<close>

record Object =
  o_Name :: string
  o_Type :: Type
  o_Pos :: Pos

text \<open>
  \<^verbatim>\<open>types.NewMethodSet\<close> is a function of the analysed program; the model takes it as
  a parameter. A \<^verbatim>\<open>*types.MethodSet\<close> is read through \<^verbatim>\<open>Len()\<close> and
  \<^verbatim>\<open>At(i).Obj()\<close> only, so it is the list of the objects of its selections.
\<close>

type_synonym MethodSet = "Object list"

type_synonym MethodSets = "Type \<Rightarrow> MethodSet"

subsection \<open>What the package writes: jen\<close>

text \<open>
  The package calls \<^verbatim>\<open>jen\<close> only to build code, never to read it back. A
  \<^verbatim>\<open>*jen.Statement\<close> is the sequence of the builder calls chained on it, and a call
  that takes code (\<^verbatim>\<open>Params\<close>, \<^verbatim>\<open>Block\<close>, \<^verbatim>\<open>Call\<close>, ...) keeps its arguments,
  each a statement of its own. \<^verbatim>\<open>jen.Id(r).Op("*").Id(n)\<close> is
  \<open>[jen_Id r, jen_Op ''*'', jen_Id n]\<close>.
\<close>

datatype Code =
    jen_Id string
  | jen_Op string
  | jen_Qual string string
  | jen_Func
  | jen_Params "Code list list"
  | jen_Block "Code list list"
  | jen_Dot string
  | jen_Call "Code list list"
  | jen_Return "Code list list"
  | jen_Index "Code list list"
  | jen_Make "Code list list"
  | jen_Len "Code list"
  | jen_Append "Code list list"
  | jen_For "Code list list"
  | jen_If "Code list list"
  | jen_List "Code list list"
  | jen_Range
  | jen_Assert "Code list"
  | jen_Comment string

type_synonym Statement = "Code list"

text \<open>
  A \<^verbatim>\<open>*jen.File\<close> is written through \<^verbatim>\<open>f.Commentf\<close> and \<^verbatim>\<open>f.Func\<close>, which
  each add one statement at the end of the file; the calls chained on \<^verbatim>\<open>f.Func()\<close>
  extend that statement in place. The file is the list of its statements; a nil
  \<^verbatim>\<open>*jen.File\<close> is no file.
\<close>

type_synonym File = "Statement list"

text \<open>
  \<^verbatim>\<open>fmt.Sprintf\<close> for the formats of this package, which hold the verb \<^verbatim>\<open>%s\<close> once
  and take one string.
\<close>

fun Sprintf :: "string \<Rightarrow> string \<Rightarrow> string" where
  "Sprintf [] a = []"
| "Sprintf [c] a = [c]"
| "Sprintf (c # d # cs) a =
     (if c = CHR ''%'' \<and> d = CHR ''s'' then a @ cs else c # Sprintf (d # cs) a)"

definition Commentf :: "File \<Rightarrow> string \<Rightarrow> string \<Rightarrow> File" where
  "Commentf f format a = f @ [[jen_Comment (Sprintf format a)]]"

text \<open>
  \<^verbatim>\<open>strings.HasSuffix\<close> and \<^verbatim>\<open>strings.TrimSuffix\<close>:
  \<^verbatim>\<open>
  func HasSuffix(s, suffix string) bool {
      return len(s) >= len(suffix) && s[len(s)-len(suffix):] == suffix
  }
  func TrimSuffix(s, suffix string) string {
      if HasSuffix(s, suffix) { return s[:len(s)-len(suffix)] }
      return s
  }
  \<close>
\<close>

definition HasSuffix :: "string \<Rightarrow> string \<Rightarrow> bool" where
  "HasSuffix s sfx \<longleftrightarrow> length s \<ge> length sfx \<and> drop (length s - length sfx) s = sfx"

definition TrimSuffix :: "string \<Rightarrow> string \<Rightarrow> string" where
  "TrimSuffix s sfx = (if HasSuffix s sfx then take (length s - length sfx) s else s)"

text \<open>
  Modelled from the spec: the constant \<^verbatim>\<open>fields.NameSpec\<close> of the package
  \<^verbatim>\<open>internal/fields\<close>, which is not among the sources; it names the type's "Spec"
  field.
\<close>

definition fields_NameSpec :: string where
  "fields_NameSpec = ''Spec''"

text \<open>
  Modelled from the spec: the constant \<^verbatim>\<open>fields.NameStatus\<close> of the package
  \<^verbatim>\<open>internal/fields\<close>, which is not among the sources; it names the type's "Status"
  field.
\<close>

definition fields_NameStatus :: string where
  "fields_NameStatus = ''Status''"

subsection \<open>New, Set and Write\<close>

text \<open>
  \<^verbatim>\<open>type New func(f *jen.File, o types.Object)\<close> adds a method to the file: the
  model returns the file it leaves.
\<close>

type_synonym New = "File \<Rightarrow> Object \<Rightarrow> File"

text \<open>\<^verbatim>\<open>type Set map[string]New\<close>.\<close>

type_synonym Set = "string \<rightharpoonup> New"

text \<open>
  \<^verbatim>\<open>type Filter func(o types.Object, methodName string) bool\<close>: true when the method
  should be filtered.
\<close>

type_synonym Filter = "Object \<Rightarrow> string \<Rightarrow> bool"

text \<open>What stops a Go program here: a run-time panic.\<close>

datatype panic = NilFuncCall | NilDereference | IndexOutOfRange | CapOutOfRange | BadAddress

text \<open>
  The first half of \<^verbatim>\<open>Write\<close>:
  \<^verbatim>\<open>
  names := make([]string, 0, len(s))
  for name := range s { names = append(names, name) }
  sort.Strings(names)
  \<close>
  Go leaves the order of \<^verbatim>\<open>range\<close> over a map open, and it can differ from run to run.
  The model takes that order as the argument \<open>keys\<close>: the keys of \<open>s\<close>, each once, in
  the order this run of the loop meets them (\<open>range_of\<close>). \<^verbatim>\<open>sort.Strings\<close> sorts in
  increasing order of \<^verbatim>\<open><\<close> on strings.
\<close>

definition range_of :: "Set \<Rightarrow> string list \<Rightarrow> bool" where
  "range_of s keys \<longleftrightarrow> distinct keys \<and> set keys = dom s"

definition Write_names :: "string list \<Rightarrow> string list" where
  "Write_names keys = sort (foldl (\<lambda>names name. names @ [name]) [] keys)"

text \<open>
  The second half:
  \<^verbatim>\<open>
  for _, name := range names {
      if mf(o, name) { continue }
      s[name](f, o)
  }
  \<close>
  \<^verbatim>\<open>s[name]\<close> of a name that is not a key is the nil function, and calling it panics.
\<close>

fun Write_loop :: "Set \<Rightarrow> string list \<Rightarrow> File \<Rightarrow> Object \<Rightarrow> Filter \<Rightarrow> panic + File" where
  "Write_loop s [] f ob mf = Inr f"
| "Write_loop s (name # names) f ob mf =
     (if mf ob name then Write_loop s names f ob mf
      else case s name of
             None \<Rightarrow> Inl NilFuncCall
           | Some new \<Rightarrow> Write_loop s names (new f ob) ob mf)"

definition Write :: "string list \<Rightarrow> Set \<Rightarrow> File \<Rightarrow> Object \<Rightarrow> Filter \<Rightarrow> panic + File" where
  "Write keys s f ob mf = Write_loop s (Write_names keys) f ob mf"

subsection \<open>DefinedOutside\<close>

text \<open>
  The loop of \<^verbatim>\<open>DefinedOutside\<close>, from index \<open>i\<close>:
  \<^verbatim>\<open>
  for i := 0; i < s.Len(); i++ {
      mo := s.At(i).Obj()
      if mo.Name() != name { continue }
      if fs.Position(mo.Pos()).Filename != filename { return true }
  }
  return false
  \<close>
\<close>

function DefinedOutside_loop :: "FileSet \<Rightarrow> string \<Rightarrow> MethodSet \<Rightarrow> string \<Rightarrow> nat \<Rightarrow> bool" where
  "DefinedOutside_loop fs filename s name i =
     (if i < length s then
        (let mo = s ! i in
         if o_Name mo \<noteq> name then DefinedOutside_loop fs filename s name (Suc i)
         else if Filename (fs (o_Pos mo)) \<noteq> filename then True
         else DefinedOutside_loop fs filename s name (Suc i))
      else False)"
  by pat_completeness auto
termination
  by (relation "measure (\<lambda>(fs, filename, s, name, i). length s - i)") auto

declare DefinedOutside_loop.simps [simp del]

definition DefinedOutside :: "MethodSets \<Rightarrow> FileSet \<Rightarrow> string \<Rightarrow> Filter" where
  "DefinedOutside NewMethodSet fs filename =
     (\<lambda>ob name.
        let s = NewMethodSet (NewPointer (o_Type ob))
        in DefinedOutside_loop fs filename s name 0)"

subsection \<open>The generators\<close>

text \<open>
  Each \<^verbatim>\<open>New...\<close> function returns a \<^verbatim>\<open>New\<close> closed over its configuration
  strings. All have one shape: a \<^verbatim>\<open>f.Commentf\<close> call, then one chain on
  \<^verbatim>\<open>f.Func()\<close>.
\<close>

text \<open>
  \<^verbatim>\<open>NewSetConditions\<close> writes a SetConditions method for the
  supplied Object to the supplied file.
\<close>

definition NewSetConditions :: "string \<Rightarrow> string \<Rightarrow> New" where
  "NewSetConditions receiver runtime =
     (\<lambda>f ob.
        let f = Commentf f ''SetConditions of this %s.'' (o_Name ob)
        in f @
          [[jen_Func, jen_Params [[jen_Id receiver, jen_Op ''*'', jen_Id (o_Name ob)]],
            jen_Id ''SetConditions'',
            jen_Params [[jen_Id ''c'', jen_Op ''...'', jen_Qual runtime ''Condition'']],
            jen_Block
             [[jen_Id receiver, jen_Dot fields_NameStatus, jen_Dot ''SetConditions'',
               jen_Call [[jen_Id ''c'', jen_Op ''...'']]]]]])"

text \<open>
  \<^verbatim>\<open>NewGetCondition\<close> writes a GetCondition method for the supplied
  Object to the supplied file.
\<close>

definition NewGetCondition :: "string \<Rightarrow> string \<Rightarrow> New" where
  "NewGetCondition receiver runtime =
     (\<lambda>f ob.
        let f = Commentf f ''GetCondition of this %s.'' (o_Name ob)
        in f @
          [[jen_Func, jen_Params [[jen_Id receiver, jen_Op ''*'', jen_Id (o_Name ob)]],
            jen_Id ''GetCondition'',
            jen_Params [[jen_Id ''c'', jen_Op ''...'', jen_Qual runtime ''Condition'']],
            jen_Block
             [[jen_Id receiver, jen_Dot fields_NameStatus, jen_Dot ''GetCondition'',
               jen_Call [[jen_Id ''c'', jen_Op ''...'']]]]]])"

text \<open>
  \<^verbatim>\<open>NewSetBindingPhase\<close> writes a SetBindingPhase method for the
  supplied Object to the supplied file.
\<close>

definition NewSetBindingPhase :: "string \<Rightarrow> string \<Rightarrow> New" where
  "NewSetBindingPhase receiver runtime =
     (\<lambda>f ob.
        let f = Commentf f ''SetBindingPhase of this %s.'' (o_Name ob)
        in f @
          [[jen_Func, jen_Params [[jen_Id receiver, jen_Op ''*'', jen_Id (o_Name ob)]],
            jen_Id ''SetBindingPhase'',
            jen_Params [[jen_Id ''p'', jen_Qual runtime ''BindingPhase'']],
            jen_Block
             [[jen_Id receiver, jen_Dot fields_NameStatus, jen_Dot ''SetBindingPhase'',
               jen_Call [[jen_Id ''p'']]]]]])"

text \<open>
  \<^verbatim>\<open>NewGetBindingPhase\<close> writes a GetBindingPhase method for the
  supplied Object to the supplied file.
\<close>

definition NewGetBindingPhase :: "string \<Rightarrow> string \<Rightarrow> New" where
  "NewGetBindingPhase receiver runtime =
     (\<lambda>f ob.
        let f = Commentf f ''GetBindingPhase of this %s.'' (o_Name ob)
        in f @
          [[jen_Func, jen_Params [[jen_Id receiver, jen_Op ''*'', jen_Id (o_Name ob)]],
            jen_Id ''GetBindingPhase'',
            jen_Params [],
            jen_Qual runtime ''BindingPhase'',
            jen_Block
             [[jen_Return
                [[jen_Id receiver, jen_Dot fields_NameStatus, jen_Dot ''GetBindingPhase'',
                  jen_Call []]]]]]])"

text \<open>
  \<^verbatim>\<open>NewSetClaimReference\<close> writes a SetClaimReference method for
  the supplied Object to the supplied file.
\<close>

definition NewSetClaimReference :: "string \<Rightarrow> string \<Rightarrow> New" where
  "NewSetClaimReference receiver core =
     (\<lambda>f ob.
        let f = Commentf f ''SetClaimReference of this %s.'' (o_Name ob)
        in f @
          [[jen_Func, jen_Params [[jen_Id receiver, jen_Op ''*'', jen_Id (o_Name ob)]],
            jen_Id ''SetClaimReference'',
            jen_Params [[jen_Id ''r'', jen_Op ''*'', jen_Qual core ''ObjectReference'']],
            jen_Block
             [[jen_Id receiver, jen_Dot fields_NameSpec, jen_Dot ''ClaimReference'', jen_Op ''='',
               jen_Id ''r'']]]])"

text \<open>
  \<^verbatim>\<open>NewGetClaimReference\<close> writes a GetClaimReference method for
  the supplied Object to the supplied file.
\<close>

definition NewGetClaimReference :: "string \<Rightarrow> string \<Rightarrow> New" where
  "NewGetClaimReference receiver core =
     (\<lambda>f ob.
        let f = Commentf f ''GetClaimReference of this %s.'' (o_Name ob)
        in f @
          [[jen_Func, jen_Params [[jen_Id receiver, jen_Op ''*'', jen_Id (o_Name ob)]],
            jen_Id ''GetClaimReference'',
            jen_Params [],
            jen_Op ''*'', jen_Qual core ''ObjectReference'',
            jen_Block
             [[jen_Return [[jen_Id receiver, jen_Dot fields_NameSpec, jen_Dot ''ClaimReference'']]]]]])"

text \<open>
  \<^verbatim>\<open>NewSetResourceReference\<close> writes a SetResourceReference method
  for the supplied Object to the supplied file.
\<close>

definition NewSetResourceReference :: "string \<Rightarrow> string \<Rightarrow> New" where
  "NewSetResourceReference receiver core =
     (\<lambda>f ob.
        let f = Commentf f ''SetResourceReference of this %s.'' (o_Name ob)
        in f @
          [[jen_Func, jen_Params [[jen_Id receiver, jen_Op ''*'', jen_Id (o_Name ob)]],
            jen_Id ''SetResourceReference'',
            jen_Params [[jen_Id ''r'', jen_Op ''*'', jen_Qual core ''ObjectReference'']],
            jen_Block
             [[jen_Id receiver, jen_Dot fields_NameSpec, jen_Dot ''ResourceReference'', jen_Op ''='',
               jen_Id ''r'']]]])"

text \<open>
  \<^verbatim>\<open>NewGetResourceReference\<close> writes a GetResourceReference method
  for the supplied Object to the supplied file.
\<close>

definition NewGetResourceReference :: "string \<Rightarrow> string \<Rightarrow> New" where
  "NewGetResourceReference receiver core =
     (\<lambda>f ob.
        let f = Commentf f ''GetResourceReference of this %s.'' (o_Name ob)
        in f @
          [[jen_Func, jen_Params [[jen_Id receiver, jen_Op ''*'', jen_Id (o_Name ob)]],
            jen_Id ''GetResourceReference'',
            jen_Params [],
            jen_Op ''*'', jen_Qual core ''ObjectReference'',
            jen_Block
             [[jen_Return [[jen_Id receiver, jen_Dot fields_NameSpec, jen_Dot ''ResourceReference'']]]]]])"

text \<open>
  \<^verbatim>\<open>NewSetNonPortableClassReference\<close> writes a
  SetNonPortableClassReference method for the supplied Object to the supplied file.
\<close>

definition NewSetNonPortableClassReference :: "string \<Rightarrow> string \<Rightarrow> New" where
  "NewSetNonPortableClassReference receiver core =
     (\<lambda>f ob.
        let f = Commentf f ''SetNonPortableClassReference of this %s.'' (o_Name ob)
        in f @
          [[jen_Func, jen_Params [[jen_Id receiver, jen_Op ''*'', jen_Id (o_Name ob)]],
            jen_Id ''SetNonPortableClassReference'',
            jen_Params [[jen_Id ''r'', jen_Op ''*'', jen_Qual core ''ObjectReference'']],
            jen_Block
             [[jen_Id receiver, jen_Dot fields_NameSpec, jen_Dot ''NonPortableClassReference'', jen_Op ''='',
               jen_Id ''r'']]]])"

text \<open>
  \<^verbatim>\<open>NewGetNonPortableClassReference\<close> writes a
  GetNonPortableClassReference method for the supplied Object to the supplied file.
\<close>

definition NewGetNonPortableClassReference :: "string \<Rightarrow> string \<Rightarrow> New" where
  "NewGetNonPortableClassReference receiver core =
     (\<lambda>f ob.
        let f = Commentf f ''GetNonPortableClassReference of this %s.'' (o_Name ob)
        in f @
          [[jen_Func, jen_Params [[jen_Id receiver, jen_Op ''*'', jen_Id (o_Name ob)]],
            jen_Id ''GetNonPortableClassReference'',
            jen_Params [],
            jen_Op ''*'', jen_Qual core ''ObjectReference'',
            jen_Block
             [[jen_Return [[jen_Id receiver, jen_Dot fields_NameSpec, jen_Dot ''NonPortableClassReference'']]]]]])"

text \<open>
  \<^verbatim>\<open>NewSetPortableClassReference\<close> writes a
  SetPortableClassReference method for the supplied Object to the supplied file.
\<close>

definition NewSetPortableClassReference :: "string \<Rightarrow> string \<Rightarrow> New" where
  "NewSetPortableClassReference receiver core =
     (\<lambda>f ob.
        let f = Commentf f ''SetPortableClassReference of this %s.'' (o_Name ob)
        in f @
          [[jen_Func, jen_Params [[jen_Id receiver, jen_Op ''*'', jen_Id (o_Name ob)]],
            jen_Id ''SetPortableClassReference'',
            jen_Params [[jen_Id ''r'', jen_Op ''*'', jen_Qual core ''LocalObjectReference'']],
            jen_Block
             [[jen_Id receiver, jen_Dot fields_NameSpec, jen_Dot ''PortableClassReference'', jen_Op ''='',
               jen_Id ''r'']]]])"

text \<open>
  \<^verbatim>\<open>NewGetPortableClassReference\<close> writes a
  GetPortableClassReference method for the supplied Object to the supplied file.
\<close>

definition NewGetPortableClassReference :: "string \<Rightarrow> string \<Rightarrow> New" where
  "NewGetPortableClassReference receiver core =
     (\<lambda>f ob.
        let f = Commentf f ''GetPortableClassReference of this %s.'' (o_Name ob)
        in f @
          [[jen_Func, jen_Params [[jen_Id receiver, jen_Op ''*'', jen_Id (o_Name ob)]],
            jen_Id ''GetPortableClassReference'',
            jen_Params [],
            jen_Op ''*'', jen_Qual core ''LocalObjectReference'',
            jen_Block
             [[jen_Return [[jen_Id receiver, jen_Dot fields_NameSpec, jen_Dot ''PortableClassReference'']]]]]])"

text \<open>
  \<^verbatim>\<open>NewSetWriteConnectionSecretToReference\<close> writes a
  SetWriteConnectionSecretToReference method for the supplied Object to the supplied file.
\<close>

definition NewSetWriteConnectionSecretToReference :: "string \<Rightarrow> string \<Rightarrow> New" where
  "NewSetWriteConnectionSecretToReference receiver core =
     (\<lambda>f ob.
        let f = Commentf f ''SetWriteConnectionSecretToReference of this %s.'' (o_Name ob)
        in f @
          [[jen_Func, jen_Params [[jen_Id receiver, jen_Op ''*'', jen_Id (o_Name ob)]],
            jen_Id ''SetWriteConnectionSecretToReference'',
            jen_Params [[jen_Id ''r'', jen_Qual core ''LocalObjectReference'']],
            jen_Block
             [[jen_Id receiver, jen_Dot fields_NameSpec, jen_Dot ''WriteConnectionSecretToReference'', jen_Op ''='',
               jen_Id ''r'']]]])"

text \<open>
  \<^verbatim>\<open>NewGetWriteConnectionSecretToReference\<close> writes a
  GetWriteConnectionSecretToReference method for the supplied Object to the supplied file.
\<close>

definition NewGetWriteConnectionSecretToReference :: "string \<Rightarrow> string \<Rightarrow> New" where
  "NewGetWriteConnectionSecretToReference receiver core =
     (\<lambda>f ob.
        let f = Commentf f ''GetWriteConnectionSecretToReference of this %s.'' (o_Name ob)
        in f @
          [[jen_Func, jen_Params [[jen_Id receiver, jen_Op ''*'', jen_Id (o_Name ob)]],
            jen_Id ''GetWriteConnectionSecretToReference'',
            jen_Params [],
            jen_Qual core ''LocalObjectReference'',
            jen_Block
             [[jen_Return [[jen_Id receiver, jen_Dot fields_NameSpec, jen_Dot ''WriteConnectionSecretToReference'']]]]]])"

text \<open>
  \<^verbatim>\<open>NewSetReclaimPolicy\<close> writes a SetReclaimPolicy method for the
  supplied Object to the supplied file. The ReclaimPolicy is set in the supplied field,
  typically Spec or SpecTemplate.
\<close>

definition NewSetReclaimPolicy :: "string \<Rightarrow> string \<Rightarrow> string \<Rightarrow> New" where
  "NewSetReclaimPolicy receiver core field =
     (\<lambda>f ob.
        let f = Commentf f ''SetReclaimPolicy of this %s.'' (o_Name ob)
        in f @
          [[jen_Func, jen_Params [[jen_Id receiver, jen_Op ''*'', jen_Id (o_Name ob)]],
            jen_Id ''SetReclaimPolicy'',
            jen_Params [[jen_Id ''r'', jen_Qual core ''ReclaimPolicy'']],
            jen_Block
             [[jen_Id receiver, jen_Dot field, jen_Dot ''ReclaimPolicy'', jen_Op ''='', jen_Id ''r'']]]])"

text \<open>
  \<^verbatim>\<open>NewGetReclaimPolicy\<close> writes a GetReclaimPolicy method for the
  supplied Object to the supplied file. The ReclaimPolicy is returned from the supplied
  field, typically Spec or SpecTemplate.
\<close>

definition NewGetReclaimPolicy :: "string \<Rightarrow> string \<Rightarrow> string \<Rightarrow> New" where
  "NewGetReclaimPolicy receiver runtime field =
     (\<lambda>f ob.
        let f = Commentf f ''GetReclaimPolicy of this %s.'' (o_Name ob)
        in f @
          [[jen_Func, jen_Params [[jen_Id receiver, jen_Op ''*'', jen_Id (o_Name ob)]],
            jen_Id ''GetReclaimPolicy'',
            jen_Params [],
            jen_Qual runtime ''ReclaimPolicy'',
            jen_Block
             [[jen_Return [[jen_Id receiver, jen_Dot field, jen_Dot ''ReclaimPolicy'']]]]]])"

text \<open>
  \<^verbatim>\<open>NewSetPortableClassItems\<close> writes a SetPortableClassItems
  method for the supplied Object to the supplied file.
\<close>

definition NewSetPortableClassItems :: "string \<Rightarrow> string \<Rightarrow> New" where
  "NewSetPortableClassItems receiver resource =
     (\<lambda>f ob.
        let element = TrimSuffix (o_Name ob) ''List'' in
        let f = Commentf f ''SetPortableClassItems of this %s.'' (o_Name ob)
        in f @
          [[jen_Func, jen_Params [[jen_Id receiver, jen_Op ''*'', jen_Id (o_Name ob)]],
            jen_Id ''SetPortableClassItems'',
            jen_Params [[jen_Id ''i'', jen_Index [], jen_Qual resource ''PortableClass'']],
            jen_Block
             [[jen_Id receiver, jen_Dot ''Items'', jen_Op ''='',
               jen_Make [[jen_Index [], jen_Id element], [jen_Id ''0''], [jen_Len [jen_Id ''i'']]]],
              [jen_For [[jen_Id ''j'', jen_Op '':='', jen_Range, jen_Id ''i'']],
               jen_Block
                [[jen_If
                   [[jen_List [[jen_Id ''actual''], [jen_Id ''ok'']], jen_Op '':='', jen_Id ''i'',
                     jen_Index [[jen_Id ''j'']], jen_Assert [jen_Op ''*'', jen_Id element]],
                    [jen_Id ''ok'']],
                  jen_Block
                   [[jen_Id receiver, jen_Dot ''Items'', jen_Op ''='',
                     jen_Append
                      [[jen_Id receiver, jen_Dot ''Items''],
                       [jen_Op ''*'', jen_Id ''actual'']]]]]]]]]])"

text \<open>
  \<^verbatim>\<open>NewGetPortableClassItems\<close> writes a GetPortableClassItems
  method for the supplied Object to the supplied file.
\<close>

definition NewGetPortableClassItems :: "string \<Rightarrow> string \<Rightarrow> New" where
  "NewGetPortableClassItems receiver resource =
     (\<lambda>f ob.
        let f = Commentf f ''GetPortableClassItems of this %s.'' (o_Name ob)
        in f @
          [[jen_Func, jen_Params [[jen_Id receiver, jen_Op ''*'', jen_Id (o_Name ob)]],
            jen_Id ''GetPortableClassItems'',
            jen_Params [],
            jen_Index [], jen_Qual resource ''PortableClass'',
            jen_Block
             [[jen_Id ''items'', jen_Op '':='',
               jen_Make
                [[jen_Index [], jen_Qual resource ''PortableClass''],
                 [jen_Len [jen_Id receiver, jen_Dot ''Items'']]]],
              [jen_For [[jen_Id ''i'', jen_Op '':='', jen_Range, jen_Id receiver, jen_Dot ''Items'']],
               jen_Block
                [[jen_Id ''items'', jen_Index [[jen_Id ''i'']], jen_Op ''='',
                  jen_Qual resource ''PortableClass'',
                  jen_Call
                   [[jen_Op ''&'', jen_Id receiver, jen_Dot ''Items'',
                     jen_Index [[jen_Id ''i'']]]]]]],
              [jen_Return [[jen_Id ''items'']]]]]])"

subsection \<open>The generated PortableClassItems methods, run\<close>

text \<open>
  For an object named \<^verbatim>\<open>BucketList\<close>, with the receiver \<^verbatim>\<open>r\<close>, the two list
  generators emit
  \<^verbatim>\<open>
  func (r *BucketList) SetPortableClassItems(i []resource.PortableClass) {
      r.Items = make([]Bucket, 0, len(i))
      for j := range i {
          if actual, ok := i[j].(*Bucket); ok {
              r.Items = append(r.Items, *actual)
          }
      }
  }

  func (r *BucketList) GetPortableClassItems() []resource.PortableClass {
      items := make([]resource.PortableClass, len(r.Items))
      for i := range r.Items {
          items[i] = resource.PortableClass(&r.Items[i])
      }
      return items
  }
  \<close>
  What follows is these two bodies under Go's rules, statement by statement. Memory is two
  heaps of cells, one of struct values and one of interface values; an address is an index
  into its heap, and what is allocated is added at the end. A pointer is nil (\<open>None\<close>)
  or an address. A slice is its header: the address of its array, its length and its
  capacity. The parameter \<^verbatim>\<open>i\<close> is only read, and is kept as the list of its
  elements.
\<close>

type_synonym addr = nat

type_synonym 'a heap = "'a list"

record slice =
  array :: addr
  len :: nat
  cap :: nat

text \<open>
  A value of the interface type \<^verbatim>\<open>resource.PortableClass\<close>: the nil interface, a value
  whose dynamic type is the pointer type \<^verbatim>\<open>*T\<close> (the pointer itself may be nil), or a
  value of a named type that is not a pointer.
\<close>

datatype PortableClass =
    nil_PortableClass
  | PointerValue Type "addr option"
  | OtherValue string

text \<open>
  The struct of the list type the methods are generated for. Its other fields are the
  extension of the record.

  \<^verbatim>\<open>GetPortableClassItems\<close> only reads the struct, and is given it as a value.
  \<^verbatim>\<open>SetPortableClassItems\<close> writes it while it reads through the pointers of its
  input, and one of those may point at the memory of the struct: the list type is its own
  element type when its name does not end in \<^verbatim>\<open>List\<close>, and an element type may hold a
  list struct. For that method the receiver is therefore an address in the heap of the
  struct values like any other pointer, and every cell of that heap is a struct value with
  its \<open>Items\<close>: the field a receiver at that address reads and writes, which is copied
  with the cell.
\<close>

record ClassList =
  Items :: slice

text \<open>
  What Go leaves to the element type and to the run time: the zero value of the element
  type, and the capacity \<^verbatim>\<open>append\<close> picks for a new array (from the old capacity and
  the length needed).
\<close>

record 'c go =
  zero_value :: 'c
  growcap :: "nat \<Rightarrow> nat \<Rightarrow> nat"

text \<open>
  A slice header is well placed when its array lies inside the heap. \<open>BadAddress\<close> is
  not a panic of Go: it marks a header or a pointer that no Go program holds.
\<close>

definition in_heap :: "slice \<Rightarrow> 'a heap \<Rightarrow> bool" where
  "in_heap s h \<longleftrightarrow> len s \<le> cap s \<and> array s + cap s \<le> length h"

text \<open>
  \<^verbatim>\<open>make([]T, n, c)\<close>, with the zero value \<open>z\<close> of \<open>T\<close>: a new array of \<open>c\<close> zero
  values behind every cell in use.
\<close>

definition make_slice :: "'a \<Rightarrow> nat \<Rightarrow> nat \<Rightarrow> 'a heap \<Rightarrow> panic + (slice \<times> 'a heap)" where
  "make_slice z n c h =
     (if c < n then Inl CapOutOfRange
      else Inr (\<lparr>array = length h, len = n, cap = c\<rparr>, h @ replicate c z))"

text \<open>\<^verbatim>\<open>*p\<close>, read and written.\<close>

definition deref :: "'a heap \<Rightarrow> addr option \<Rightarrow> panic + 'a" where
  "deref h p =
     (case p of
        None \<Rightarrow> Inl NilDereference
      | Some a \<Rightarrow> if a < length h then Inr (h ! a) else Inl BadAddress)"

definition store :: "'a heap \<Rightarrow> addr option \<Rightarrow> 'a \<Rightarrow> panic + 'a heap" where
  "store h p v =
     (case p of
        None \<Rightarrow> Inl NilDereference
      | Some a \<Rightarrow> if a < length h then Inr (h[a := v]) else Inl BadAddress)"

text \<open>\<^verbatim>\<open>&s[i]\<close>: the index is checked against the length.\<close>

definition index_addr :: "slice \<Rightarrow> nat \<Rightarrow> panic + addr option" where
  "index_addr s i = (if i < len s then Inr (Some (array s + i)) else Inl IndexOutOfRange)"

text \<open>The elements of a slice, \<^verbatim>\<open>s[0]\<close> to \<^verbatim>\<open>s[len(s)-1]\<close>.\<close>

definition elements :: "'a heap \<Rightarrow> slice \<Rightarrow> 'a list" where
  "elements h s = take (len s) (drop (array s) h)"

text \<open>
  \<^verbatim>\<open>append(s, v)\<close>: within the capacity the value is written behind the last element
  of the same array; beyond it the elements move to a new array.
\<close>

definition append1 :: "'c go \<Rightarrow> slice \<Rightarrow> 'c \<Rightarrow> 'c heap \<Rightarrow> panic + (slice \<times> 'c heap)" where
  "append1 rt s v h =
     (if \<not> in_heap s h then Inl BadAddress
      else if len s < cap s then
        Inr (s\<lparr>len := Suc (len s)\<rparr>, h[array s + len s := v])
      else
        let n = Suc (len s);
            c = max n (growcap rt (cap s) n)
        in Inr (\<lparr>array = length h, len = n, cap = c\<rparr>,
                h @ elements h s @ [v] @ replicate (c - n) (zero_value rt)))"

text \<open>
  \<^verbatim>\<open>actual, ok := x.(T)\<close> on an interface value: \<open>Some actual\<close> when \<open>ok\<close>, that is
  when the dynamic type of \<open>x\<close> is \<open>T\<close>.
\<close>

fun Assert :: "PortableClass \<Rightarrow> Type \<Rightarrow> addr option option" where
  "Assert (PointerValue t p) T = (if NewPointer t = T then Some p else None)"
| "Assert nil_PortableClass T = None"
| "Assert (OtherValue n) T = None"

text \<open>\<^verbatim>\<open>r.Items\<close>, read and assigned, through the pointer \<^verbatim>\<open>r\<close>.\<close>

definition read_Items :: "'z ClassList_scheme heap \<Rightarrow> addr option \<Rightarrow> panic + slice" where
  "read_Items h r = (case deref h r of Inl e \<Rightarrow> Inl e | Inr v \<Rightarrow> Inr (Items v))"

definition assign_Items ::
  "'z ClassList_scheme heap \<Rightarrow> addr option \<Rightarrow> slice \<Rightarrow> panic + 'z ClassList_scheme heap" where
  "assign_Items h r s =
     (case deref h r of Inl e \<Rightarrow> Inl e | Inr v \<Rightarrow> store h r (v\<lparr>Items := s\<rparr>))"

text \<open>
  The loop of the generated \<^verbatim>\<open>SetPortableClassItems\<close> over the rest of \<^verbatim>\<open>i\<close>, on the
  heap of the struct values; \<open>x\<close> is \<^verbatim>\<open>i[j]\<close>. In
  \<^verbatim>\<open>r.Items = append(r.Items, *actual)\<close> the two operands are read, the value is
  appended, and the new header is assigned.
\<close>

fun Set_loop ::
  "'z ClassList_scheme go \<Rightarrow> string \<Rightarrow> addr option \<Rightarrow> PortableClass list
     \<Rightarrow> 'z ClassList_scheme heap \<Rightarrow> panic + 'z ClassList_scheme heap" where
  "Set_loop rt element r [] h = Inr h"
| "Set_loop rt element r (x # xs) h =
     (case Assert x (NewPointer (Named element)) of
        None \<Rightarrow> Set_loop rt element r xs h
      | Some actual \<Rightarrow>
          (case read_Items h r of
             Inl e \<Rightarrow> Inl e
           | Inr s \<Rightarrow>
               (case deref h actual of
                  Inl e \<Rightarrow> Inl e
                | Inr v \<Rightarrow>
                    (case append1 rt s v h of
                       Inl e \<Rightarrow> Inl e
                     | Inr (s', h') \<Rightarrow>
                         (case assign_Items h' r s' of
                            Inl e \<Rightarrow> Inl e
                          | Inr h'' \<Rightarrow> Set_loop rt element r xs h'')))))"

text \<open>
  The generated \<^verbatim>\<open>SetPortableClassItems\<close>, with the element type name the generator
  derived. The receiver \<open>r\<close> is nil or the address of its struct; the method leaves the
  heap of the struct values.
\<close>

definition SetPortableClassItems ::
  "'z ClassList_scheme go \<Rightarrow> string \<Rightarrow> addr option \<Rightarrow> PortableClass list
     \<Rightarrow> 'z ClassList_scheme heap \<Rightarrow> panic + 'z ClassList_scheme heap" where
  "SetPortableClassItems rt element r i h =
     (case make_slice (zero_value rt) 0 (length i) h of
        Inl e \<Rightarrow> Inl e
      | Inr (s, h') \<Rightarrow>
          (case assign_Items h' r s of
             Inl e \<Rightarrow> Inl e
           | Inr h'' \<Rightarrow> Set_loop rt element r i h''))"


text \<open>
  The loop of the generated \<^verbatim>\<open>GetPortableClassItems\<close> from index \<open>i\<close>, on the heap
  of the interface values: \<open>s\<close> is \<^verbatim>\<open>r.Items\<close>, \<open>n\<close> the length \<^verbatim>\<open>range\<close> read from
  it, and \<open>T\<close> the element type of that field, so that \<^verbatim>\<open>&r.Items[i]\<close> has the type
  \<^verbatim>\<open>*T\<close>.
\<close>

function Get_loop ::
  "slice \<Rightarrow> Type \<Rightarrow> slice \<Rightarrow> PortableClass heap \<Rightarrow> nat \<Rightarrow> nat \<Rightarrow> panic + PortableClass heap" where
  "Get_loop s T items ih i n =
     (if i < n then
        (case index_addr s i of
           Inl e \<Rightarrow> Inl e
         | Inr p \<Rightarrow>
             (case index_addr items i of
                Inl e \<Rightarrow> Inl e
              | Inr q \<Rightarrow>
                  (case store ih q (PointerValue T p) of
                     Inl e \<Rightarrow> Inl e
                   | Inr ih' \<Rightarrow> Get_loop s T items ih' (Suc i) n)))
      else Inr ih)"
  by pat_completeness auto
termination
  by (relation "measure (\<lambda>(s, T, items, ih, i, n). n - i)") auto

declare Get_loop.simps [simp del]

text \<open>
  The generated \<^verbatim>\<open>GetPortableClassItems\<close>. The receiver is nil or points to the struct
  \<open>r\<close>. The method returns the new slice, and leaves the struct and the two heaps.
\<close>

definition GetPortableClassItems ::
  "Type \<Rightarrow> 'z ClassList_scheme option \<Rightarrow> 'c heap \<Rightarrow> PortableClass heap
     \<Rightarrow> panic + (slice \<times> 'z ClassList_scheme \<times> 'c heap \<times> PortableClass heap)" where
  "GetPortableClassItems T receiver h ih =
     (case receiver of
        None \<Rightarrow> Inl NilDereference
      | Some r \<Rightarrow>
          (let n = len (Items r) in
           case make_slice nil_PortableClass n n ih of
             Inl e \<Rightarrow> Inl e
           | Inr (items, ih') \<Rightarrow>
               (case Get_loop (Items r) T items ih' 0 n of
                  Inl e \<Rightarrow> Inl e
                | Inr ih'' \<Rightarrow> Inr (items, r, h, ih''))))"

subsection \<open>Reading what was written\<close>

text \<open>
  The package never reads a file back. To state what a generator wrote, a statement of the
  shape \<^verbatim>\<open>Func().Params(receiver).Id(name).Params(params) ... .Block(body)\<close> is read
  as a method declaration; what stands between the parameters and the block is the result
  type.
\<close>

record MethodDecl =
  d_receiver :: "Statement list"
  d_name :: string
  d_params :: "Statement list"
  d_result :: Statement
  d_body :: "Statement list"

definition method_decl :: "Statement \<Rightarrow> MethodDecl option" where
  "method_decl st =
     (case st of
        jen_Func # jen_Params recv # jen_Id name # jen_Params ps # rest \<Rightarrow>
          (case rev rest of
             jen_Block b # res \<Rightarrow>
               Some \<lparr>d_receiver = recv, d_name = name, d_params = ps, d_result = rev res,
                     d_body = b\<rparr>
           | _ \<Rightarrow> None)
      | _ \<Rightarrow> None)"

definition declared :: "File \<Rightarrow> MethodDecl list" where
  "declared f = List.map_filter method_decl f"

text \<open>The expression a body returns, when the body is one \<^verbatim>\<open>return\<close> of one expression.\<close>

definition returned :: "Statement list \<Rightarrow> Statement option" where
  "returned body = (case body of [[jen_Return [e]]] \<Rightarrow> Some e | _ \<Rightarrow> None)"

text \<open>The pointer receiver \<^verbatim>\<open>(receiver *Name)\<close>.\<close>

definition pointer_receiver :: "string \<Rightarrow> Object \<Rightarrow> Statement list" where
  "pointer_receiver receiver ob = [[jen_Id receiver, jen_Op ''*'', jen_Id (o_Name ob)]]"

subsection \<open>Example data\<close>

definition BucketList :: Object where
  "BucketList = \<lparr>o_Name = ''BucketList'', o_Type = Named ''BucketList'', o_Pos = 1\<rparr>"

definition Bucket :: Object where
  "Bucket = \<lparr>o_Name = ''Bucket'', o_Type = Named ''Bucket'', o_Pos = 2\<rparr>"

text \<open>
  A file set of two files, and a program in which \<^verbatim>\<open>*BucketList\<close> has a method
  \<^verbatim>\<open>SetConditions\<close> written in \<^verbatim>\<open>manual.go\<close> and a method
  \<^verbatim>\<open>GetBindingPhase\<close> in \<^verbatim>\<open>zz_generated.go\<close>.
\<close>

definition two_files :: FileSet where
  "two_files p =
     \<lparr>Filename = (if p < 100 then ''manual.go'' else ''zz_generated.go''), Line = p, Column = 1\<rparr>"

definition bucket_methods :: MethodSets where
  "bucket_methods T =
     (if T = NewPointer (Named ''BucketList'')
      then [\<lparr>o_Name = ''GetBindingPhase'', o_Type = Signature, o_Pos = 120\<rparr>,
            \<lparr>o_Name = ''SetConditions'', o_Type = Signature, o_Pos = 7\<rparr>]
      else [])"

definition no_methods :: MethodSets where
  "no_methods T = []"

text \<open>Three generators that each leave their name in the file, and a registry of them.\<close>

definition mark :: "string \<Rightarrow> New" where
  "mark name = (\<lambda>f ob. Commentf f ''%s'' name)"

definition foo_set :: Set where
  "foo_set = [''GetFoo'' \<mapsto> mark ''GetFoo'', ''SetFoo'' \<mapsto> mark ''SetFoo'',
              ''AddFoo'' \<mapsto> mark ''AddFoo'']"

text \<open>A registry of three generators of the package.\<close>

definition bucket_set :: Set where
  "bucket_set =
     [''SetConditions'' \<mapsto> NewSetConditions ''b'' ''runtime'',
      ''GetBindingPhase'' \<mapsto> NewGetBindingPhase ''b'' ''runtime'',
      ''SetBindingPhase'' \<mapsto> NewSetBindingPhase ''b'' ''runtime'']"



text \<open>A list with two items in an array of three.\<close>

definition two_items :: ClassList where
  "two_items = \<lparr>Items = \<lparr>array = 1, len = 2, cap = 3\<rparr>\<rparr>"


section \<open>Properties\<close>

subsection \<open>DefinedOutside\<close>

lemma DefinedOutside_loop_iff:
  "DefinedOutside_loop fs filename s name i \<longleftrightarrow>
     (\<exists>j. i \<le> j \<and> j < length s \<and> o_Name (s ! j) = name
          \<and> Filename (fs (o_Pos (s ! j))) \<noteq> filename)"
proof (induction fs filename s name i rule: DefinedOutside_loop.induct)
  case (1 fs filename s name i)
  show ?case
  proof (cases "i < length s")
    case False
    then show ?thesis
      by (subst DefinedOutside_loop.simps) auto
  next
    case inside: True
    let ?hit = "\<lambda>j. o_Name (s ! j) = name \<and> Filename (fs (o_Pos (s ! j))) \<noteq> filename"
    have split: "(\<exists>j. i \<le> j \<and> j < length s \<and> ?hit j)
        \<longleftrightarrow> ?hit i \<or> (\<exists>j. Suc i \<le> j \<and> j < length s \<and> ?hit j)"
      using inside by (metis Suc_leI le_eq_less_or_eq Suc_leD order_refl)
    show ?thesis
    proof (cases "o_Name (s ! i) \<noteq> name")
      case True
      then have "DefinedOutside_loop fs filename s name i
          = DefinedOutside_loop fs filename s name (Suc i)"
        using inside by (subst DefinedOutside_loop.simps) simp
      with "1.IH"(1) [OF inside refl True] split True show ?thesis
        by simp
    next
      case same: False
      show ?thesis
      proof (cases "Filename (fs (o_Pos (s ! i))) \<noteq> filename")
        case True
        then have "DefinedOutside_loop fs filename s name i"
          using inside same by (subst DefinedOutside_loop.simps) simp
        with split same True show ?thesis by simp
      next
        case False
        then have "DefinedOutside_loop fs filename s name i
            = DefinedOutside_loop fs filename s name (Suc i)"
          using inside same by (subst DefinedOutside_loop.simps) simp
        with "1.IH"(2) [OF inside refl _ False] same split False show ?thesis
          by simp
      qed
    qed
  qed
qed

lemma DefinedOutside_iff:
  "DefinedOutside NewMethodSet fs filename ob name \<longleftrightarrow>
     (\<exists>mo \<in> set (NewMethodSet (NewPointer (o_Type ob))).
        o_Name mo = name \<and> Filename (fs (o_Pos mo)) \<noteq> filename)"
proof -
  let ?s = "NewMethodSet (NewPointer (o_Type ob))"
  let ?hit = "\<lambda>mo. o_Name mo = name \<and> Filename (fs (o_Pos mo)) \<noteq> filename"
  have "DefinedOutside NewMethodSet fs filename ob name
      \<longleftrightarrow> (\<exists>j. j < length ?s \<and> ?hit (?s ! j))"
    by (simp add: DefinedOutside_def DefinedOutside_loop_iff Let_def)
  also have "\<dots> \<longleftrightarrow> (\<exists>mo \<in> set ?s. ?hit mo)"
    by (metis in_set_conv_nth)
  finally show ?thesis .
qed

text \<open>
  C1. For every object, candidate name and target filename, the filter
  \<^verbatim>\<open>DefinedOutside(fs, filename)\<close> returns true if and only if the method set of the
  pointer to the object's type has a member of that name whose position lies in a file
  other than \<open>filename\<close>. It returns false when no member has the name, and false when
  every member of that name was declared in \<open>filename\<close> itself.
\<close>

theorem DefinedOutside_correct:
  "(DefinedOutside NewMethodSet fs filename ob name \<longleftrightarrow>
      (\<exists>mo \<in> set (NewMethodSet (NewPointer (o_Type ob))).
         o_Name mo = name \<and> Filename (fs (o_Pos mo)) \<noteq> filename))
   \<and> ((\<forall>mo \<in> set (NewMethodSet (NewPointer (o_Type ob))). o_Name mo \<noteq> name)
        \<longrightarrow> \<not> DefinedOutside NewMethodSet fs filename ob name)
   \<and> ((\<forall>mo \<in> set (NewMethodSet (NewPointer (o_Type ob))).
          o_Name mo = name \<longrightarrow> Filename (fs (o_Pos mo)) = filename)
        \<longrightarrow> \<not> DefinedOutside NewMethodSet fs filename ob name)"
  unfolding DefinedOutside_iff by blast

text \<open>
  On the example program: \<^verbatim>\<open>SetConditions\<close> is written in \<^verbatim>\<open>manual.go\<close>, so it
  is filtered when \<^verbatim>\<open>zz_generated.go\<close> is generated; \<^verbatim>\<open>SetBindingPhase\<close> is no
  method of the type, and \<^verbatim>\<open>GetBindingPhase\<close> was declared in
  \<^verbatim>\<open>zz_generated.go\<close> itself: neither is filtered.
\<close>

theorem DefinedOutside_correct_witness:
  "DefinedOutside bucket_methods two_files ''zz_generated.go'' BucketList ''SetConditions''
   \<and> \<not> DefinedOutside bucket_methods two_files ''zz_generated.go'' BucketList ''SetBindingPhase''
   \<and> \<not> DefinedOutside bucket_methods two_files ''zz_generated.go'' BucketList ''GetBindingPhase''"
  using
    DefinedOutside_correct [of bucket_methods two_files "''zz_generated.go''" BucketList "''SetConditions''"]
    DefinedOutside_correct [of bucket_methods two_files "''zz_generated.go''" BucketList "''SetBindingPhase''"]
    DefinedOutside_correct [of bucket_methods two_files "''zz_generated.go''" BucketList "''GetBindingPhase''"]
  by (simp add: bucket_methods_def two_files_def BucketList_def)

subsection \<open>Write\<close>

lemma foldl_snoc_keys: "foldl (\<lambda>names name. names @ [name]) acc keys = acc @ keys"
  by (induction keys arbitrary: acc) simp_all

lemma Write_names_sort: "Write_names keys = sort keys"
  by (simp add: Write_names_def foldl_snoc_keys)

lemma Write_names_range:
  assumes "range_of s keys"
  shows "Write_names keys = sorted_list_of_set (dom s)"
proof -
  from assms have "distinct keys" and "set keys = dom s"
    by (simp_all add: range_of_def)
  then have "sorted_list_of_set (dom s) = sort (remdups keys)"
    by (metis sorted_list_of_set_sort_remdups)
  with \<open>distinct keys\<close> show ?thesis
    by (simp add: Write_names_sort distinct_remdups_id)
qed

lemma sorted_list_of_set_eqI:
  "sorted xs \<Longrightarrow> distinct xs \<Longrightarrow> set xs = A \<Longrightarrow> sorted_list_of_set A = xs"
  using sorted_list_of_set.idem_if_sorted_distinct by blast

lemma finite_dom_range: "range_of s keys \<Longrightarrow> finite (dom s)"
  by (metis List.finite_set range_of_def)

lemma Write_loop_fold:
  "set names \<subseteq> dom s \<Longrightarrow>
   Write_loop s names f ob mf =
     Inr (foldl (\<lambda>f name. the (s name) f ob) f (filter (\<lambda>name. \<not> mf ob name) names))"
  by (induction names arbitrary: f) auto

lemma Write_fold:
  assumes "range_of s keys"
  shows "Write keys s f ob mf =
     Inr (foldl (\<lambda>f name. the (s name) f ob) f
            (filter (\<lambda>name. \<not> mf ob name) (sorted_list_of_set (dom s))))"
proof -
  have "set (sorted_list_of_set (dom s)) \<subseteq> dom s"
    using finite_dom_range [OF assms] by simp
  then show ?thesis
    by (simp add: Write_def Write_names_range [OF assms] Write_loop_fold)
qed

lemma Write_names_three:
  assumes "range_of s keys" and "dom s = {''GetFoo'', ''SetFoo'', ''AddFoo''}"
  shows "Write_names keys = [''AddFoo'', ''GetFoo'', ''SetFoo'']"
proof -
  have names: "sorted (Write_names keys)" "distinct (Write_names keys)"
      "set (Write_names keys) = dom s"
    using finite_dom_range [OF assms(1)] by (simp_all add: Write_names_range [OF assms(1)])
  have three: "sorted [''AddFoo'', ''GetFoo'', ''SetFoo'']"
      "distinct [''AddFoo'', ''GetFoo'', ''SetFoo'']"
    by simp_all
  have "set (Write_names keys) = set [''AddFoo'', ''GetFoo'', ''SetFoo'']"
    using names(3) assms(2) by auto
  then show ?thesis
    by (rule sorted_distinct_set_unique [OF names(1,2) three])
qed

text \<open>
  C2. Whatever order \<^verbatim>\<open>range\<close> yields the keys of the map in, \<^verbatim>\<open>Write\<close> goes
  through the registered names in strictly increasing order, each once: its loop runs over
  the sorted list of the key set. For a registry of exactly the names \<^verbatim>\<open>GetFoo\<close>,
  \<^verbatim>\<open>SetFoo\<close> and \<^verbatim>\<open>AddFoo\<close> that list is \<^verbatim>\<open>AddFoo\<close>, \<^verbatim>\<open>GetFoo\<close>,
  \<^verbatim>\<open>SetFoo\<close>, and when none is filtered the three generators write in that order.
\<close>

theorem Write_sorted_order:
  assumes "range_of s keys"
  shows "Write_names keys = sorted_list_of_set (dom s)
    \<and> sorted_wrt (<) (Write_names keys)
    \<and> set (Write_names keys) = dom s
    \<and> Write keys s f ob mf = Write_loop s (sorted_list_of_set (dom s)) f ob mf
    \<and> (dom s = {''GetFoo'', ''SetFoo'', ''AddFoo''}
         \<longrightarrow> Write_names keys = [''AddFoo'', ''GetFoo'', ''SetFoo''])
    \<and> (dom s = {''GetFoo'', ''SetFoo'', ''AddFoo''} \<and> (\<forall>name \<in> dom s. \<not> mf ob name)
         \<longrightarrow> Write keys s f ob mf =
               Inr (the (s ''SetFoo'') (the (s ''GetFoo'') (the (s ''AddFoo'') f ob) ob) ob))"
proof -
  note names = Write_names_range [OF assms]
  have strict: "sorted_wrt (<) (Write_names keys)"
    by (simp add: names strict_sorted_list_of_set)
  have keys: "set (Write_names keys) = dom s"
    using finite_dom_range [OF assms] by (simp add: names)
  have loop: "Write keys s f ob mf = Write_loop s (sorted_list_of_set (dom s)) f ob mf"
    by (simp add: Write_def names)
  have three: "Write keys s f ob mf =
      Inr (the (s ''SetFoo'') (the (s ''GetFoo'') (the (s ''AddFoo'') f ob) ob) ob)"
    if dom: "dom s = {''GetFoo'', ''SetFoo'', ''AddFoo''}"
      and unfiltered: "\<forall>name \<in> dom s. \<not> mf ob name"
  proof -
    have "sorted_list_of_set (dom s) = [''AddFoo'', ''GetFoo'', ''SetFoo'']"
      using Write_names_three [OF assms dom] names by simp
    moreover have "\<not> mf ob ''AddFoo''" "\<not> mf ob ''GetFoo''" "\<not> mf ob ''SetFoo''"
      using unfiltered dom by simp_all
    ultimately show ?thesis
      by (simp add: Write_fold [OF assms])
  qed
  from names strict keys loop three Write_names_three [OF assms] show ?thesis
    by blast
qed

text \<open>
  The registry \<open>foo_set\<close>, met by \<^verbatim>\<open>range\<close> in the order \<^verbatim>\<open>SetFoo\<close>,
  \<^verbatim>\<open>AddFoo\<close>, \<^verbatim>\<open>GetFoo\<close>, with nothing filtered.
\<close>

theorem Write_sorted_order_witness:
  "range_of foo_set [''SetFoo'', ''AddFoo'', ''GetFoo'']
   \<and> Write_names [''SetFoo'', ''AddFoo'', ''GetFoo''] = [''AddFoo'', ''GetFoo'', ''SetFoo'']
   \<and> Write [''SetFoo'', ''AddFoo'', ''GetFoo''] foo_set [] BucketList (\<lambda>ob name. False) =
       Inr [[jen_Comment ''AddFoo''], [jen_Comment ''GetFoo''], [jen_Comment ''SetFoo'']]"
proof -
  have keys: "range_of foo_set [''SetFoo'', ''AddFoo'', ''GetFoo'']"
    by (auto simp: range_of_def foo_set_def)
  have dom: "dom foo_set = {''GetFoo'', ''SetFoo'', ''AddFoo''}"
    by (auto simp: foo_set_def)
  from Write_sorted_order [OF keys, of "[]" BucketList "\<lambda>ob name. False"] keys dom
  show ?thesis
    by (simp add: foo_set_def mark_def Commentf_def)
qed

text \<open>
  C6. Two runs of \<^verbatim>\<open>Write\<close> on the same registry, file, object and filter leave the
  same file, whatever order \<^verbatim>\<open>range\<close> yields the keys of the map in on either run; and
  both runs return. When the object has no method yet, \<^verbatim>\<open>DefinedOutside\<close> filters
  nothing and that file holds what every registered generator writes, in increasing order
  of the names.
\<close>

theorem Write_deterministic:
  assumes "range_of s keys" and "range_of s keys'"
  shows "Write keys s f ob mf = Write keys' s f ob mf
    \<and> (\<exists>out. Write keys s f ob mf = Inr out \<and> Write keys' s f ob mf = Inr out)
    \<and> (NewMethodSet (NewPointer (o_Type ob)) = []
         \<longrightarrow> Write keys s f ob (DefinedOutside NewMethodSet fs filename) =
               Inr (foldl (\<lambda>f name. the (s name) f ob) f (sorted_list_of_set (dom s)))
             \<and> Write keys' s f ob (DefinedOutside NewMethodSet fs filename) =
               Inr (foldl (\<lambda>f name. the (s name) f ob) f (sorted_list_of_set (dom s))))"
proof -
  have same: "Write keys s f ob mf = Write keys' s f ob mf"
    by (simp add: Write_fold [OF assms(1)] Write_fold [OF assms(2)])
  have "\<not> DefinedOutside NewMethodSet fs filename ob name"
    if "NewMethodSet (NewPointer (o_Type ob)) = []" for name
    using that by (simp add: DefinedOutside_iff)
  then show ?thesis
    using same by (simp add: Write_fold [OF assms(1)] Write_fold [OF assms(2)])
qed

text \<open>
  The registry \<open>bucket_set\<close> in a program without methods, met in two different
  orders.
\<close>

theorem Write_deterministic_witness:
  "range_of bucket_set [''SetConditions'', ''GetBindingPhase'', ''SetBindingPhase'']
   \<and> range_of bucket_set [''SetBindingPhase'', ''SetConditions'', ''GetBindingPhase'']
   \<and> Write [''SetConditions'', ''GetBindingPhase'', ''SetBindingPhase''] bucket_set []
        BucketList (DefinedOutside no_methods two_files ''zz_generated.go'')
     = Write [''SetBindingPhase'', ''SetConditions'', ''GetBindingPhase''] bucket_set []
        BucketList (DefinedOutside no_methods two_files ''zz_generated.go'')
   \<and> map d_name (declared (projr
        (Write [''SetBindingPhase'', ''SetConditions'', ''GetBindingPhase''] bucket_set []
           BucketList (DefinedOutside no_methods two_files ''zz_generated.go''))))
     = [''GetBindingPhase'', ''SetBindingPhase'', ''SetConditions'']"
proof -
  have one: "range_of bucket_set [''SetConditions'', ''GetBindingPhase'', ''SetBindingPhase'']"
    by (auto simp: range_of_def bucket_set_def)
  have two: "range_of bucket_set [''SetBindingPhase'', ''SetConditions'', ''GetBindingPhase'']"
    by (auto simp: range_of_def bucket_set_def)
  have dom: "dom bucket_set = {''SetConditions'', ''GetBindingPhase'', ''SetBindingPhase''}"
    by (auto simp: bucket_set_def)
  have sorted: "sorted_list_of_set (dom bucket_set)
      = [''GetBindingPhase'', ''SetBindingPhase'', ''SetConditions'']"
    by (rule sorted_list_of_set_eqI) (auto simp: dom)
  have none: "no_methods (NewPointer (o_Type BucketList)) = []"
    by (simp add: no_methods_def)
  from Write_deterministic [OF one two, of "[]" BucketList
      "DefinedOutside no_methods two_files ''zz_generated.go''" no_methods two_files
      "''zz_generated.go''"] none one two
  show ?thesis
    by (simp add: sorted bucket_set_def declared_def method_decl_def List.map_filter_simps
        NewSetConditions_def NewGetBindingPhase_def NewSetBindingPhase_def Commentf_def)
qed

subsection \<open>What each generator declares\<close>

lemma declared_append: "declared (f @ g) = declared f @ declared g"
  by (simp add: declared_def List.map_filter_def)

lemma declared_Commentf: "declared (Commentf f format a) = declared f"
  by (simp add: declared_def Commentf_def List.map_filter_def method_decl_def)

lemma declared_single:
  "declared [st] = (case method_decl st of None \<Rightarrow> [] | Some d \<Rightarrow> [d])"
  by (simp add: declared_def List.map_filter_def split: option.split)

text \<open>
  Every generator adds one comment and one method declaration at the end of the file; the
  declaration is read back in full.
\<close>

lemma NewSetConditions_declares:
  "declared (NewSetConditions receiver runtime f ob) =
     declared f @
       [\<lparr>d_receiver = pointer_receiver receiver ob,
         d_name = ''SetConditions'',
         d_params = [[jen_Id ''c'', jen_Op ''...'', jen_Qual runtime ''Condition'']],
         d_result = [],
         d_body =
          [[jen_Id receiver, jen_Dot fields_NameStatus, jen_Dot ''SetConditions'',
            jen_Call [[jen_Id ''c'', jen_Op ''...'']]]]\<rparr>]"
  by (simp add: NewSetConditions_def declared_append declared_Commentf declared_single
      method_decl_def pointer_receiver_def Let_def)

lemma NewGetCondition_declares:
  "declared (NewGetCondition receiver runtime f ob) =
     declared f @
       [\<lparr>d_receiver = pointer_receiver receiver ob,
         d_name = ''GetCondition'',
         d_params = [[jen_Id ''c'', jen_Op ''...'', jen_Qual runtime ''Condition'']],
         d_result = [],
         d_body =
          [[jen_Id receiver, jen_Dot fields_NameStatus, jen_Dot ''GetCondition'',
            jen_Call [[jen_Id ''c'', jen_Op ''...'']]]]\<rparr>]"
  by (simp add: NewGetCondition_def declared_append declared_Commentf declared_single
      method_decl_def pointer_receiver_def Let_def)

lemma NewSetBindingPhase_declares:
  "declared (NewSetBindingPhase receiver runtime f ob) =
     declared f @
       [\<lparr>d_receiver = pointer_receiver receiver ob,
         d_name = ''SetBindingPhase'',
         d_params = [[jen_Id ''p'', jen_Qual runtime ''BindingPhase'']],
         d_result = [],
         d_body =
          [[jen_Id receiver, jen_Dot fields_NameStatus, jen_Dot ''SetBindingPhase'',
            jen_Call [[jen_Id ''p'']]]]\<rparr>]"
  by (simp add: NewSetBindingPhase_def declared_append declared_Commentf declared_single
      method_decl_def pointer_receiver_def Let_def)

lemma NewGetBindingPhase_declares:
  "declared (NewGetBindingPhase receiver runtime f ob) =
     declared f @
       [\<lparr>d_receiver = pointer_receiver receiver ob,
         d_name = ''GetBindingPhase'',
         d_params = [],
         d_result = [jen_Qual runtime ''BindingPhase''],
         d_body =
          [[jen_Return
             [[jen_Id receiver, jen_Dot fields_NameStatus, jen_Dot ''GetBindingPhase'',
               jen_Call []]]]]\<rparr>]"
  by (simp add: NewGetBindingPhase_def declared_append declared_Commentf declared_single
      method_decl_def pointer_receiver_def Let_def)

lemma NewSetClaimReference_declares:
  "declared (NewSetClaimReference receiver core f ob) =
     declared f @
       [\<lparr>d_receiver = pointer_receiver receiver ob,
         d_name = ''SetClaimReference'',
         d_params = [[jen_Id ''r'', jen_Op ''*'', jen_Qual core ''ObjectReference'']],
         d_result = [],
         d_body =
          [[jen_Id receiver, jen_Dot fields_NameSpec, jen_Dot ''ClaimReference'', jen_Op ''='',
            jen_Id ''r'']]\<rparr>]"
  by (simp add: NewSetClaimReference_def declared_append declared_Commentf declared_single
      method_decl_def pointer_receiver_def Let_def)

lemma NewGetClaimReference_declares:
  "declared (NewGetClaimReference receiver core f ob) =
     declared f @
       [\<lparr>d_receiver = pointer_receiver receiver ob,
         d_name = ''GetClaimReference'',
         d_params = [],
         d_result = [jen_Op ''*'', jen_Qual core ''ObjectReference''],
         d_body =
          [[jen_Return [[jen_Id receiver, jen_Dot fields_NameSpec, jen_Dot ''ClaimReference'']]]]\<rparr>]"
  by (simp add: NewGetClaimReference_def declared_append declared_Commentf declared_single
      method_decl_def pointer_receiver_def Let_def)

lemma NewSetResourceReference_declares:
  "declared (NewSetResourceReference receiver core f ob) =
     declared f @
       [\<lparr>d_receiver = pointer_receiver receiver ob,
         d_name = ''SetResourceReference'',
         d_params = [[jen_Id ''r'', jen_Op ''*'', jen_Qual core ''ObjectReference'']],
         d_result = [],
         d_body =
          [[jen_Id receiver, jen_Dot fields_NameSpec, jen_Dot ''ResourceReference'', jen_Op ''='',
            jen_Id ''r'']]\<rparr>]"
  by (simp add: NewSetResourceReference_def declared_append declared_Commentf declared_single
      method_decl_def pointer_receiver_def Let_def)

lemma NewGetResourceReference_declares:
  "declared (NewGetResourceReference receiver core f ob) =
     declared f @
       [\<lparr>d_receiver = pointer_receiver receiver ob,
         d_name = ''GetResourceReference'',
         d_params = [],
         d_result = [jen_Op ''*'', jen_Qual core ''ObjectReference''],
         d_body =
          [[jen_Return [[jen_Id receiver, jen_Dot fields_NameSpec, jen_Dot ''ResourceReference'']]]]\<rparr>]"
  by (simp add: NewGetResourceReference_def declared_append declared_Commentf declared_single
      method_decl_def pointer_receiver_def Let_def)

lemma NewSetNonPortableClassReference_declares:
  "declared (NewSetNonPortableClassReference receiver core f ob) =
     declared f @
       [\<lparr>d_receiver = pointer_receiver receiver ob,
         d_name = ''SetNonPortableClassReference'',
         d_params = [[jen_Id ''r'', jen_Op ''*'', jen_Qual core ''ObjectReference'']],
         d_result = [],
         d_body =
          [[jen_Id receiver, jen_Dot fields_NameSpec, jen_Dot ''NonPortableClassReference'', jen_Op ''='',
            jen_Id ''r'']]\<rparr>]"
  by (simp add: NewSetNonPortableClassReference_def declared_append declared_Commentf declared_single
      method_decl_def pointer_receiver_def Let_def)

lemma NewGetNonPortableClassReference_declares:
  "declared (NewGetNonPortableClassReference receiver core f ob) =
     declared f @
       [\<lparr>d_receiver = pointer_receiver receiver ob,
         d_name = ''GetNonPortableClassReference'',
         d_params = [],
         d_result = [jen_Op ''*'', jen_Qual core ''ObjectReference''],
         d_body =
          [[jen_Return [[jen_Id receiver, jen_Dot fields_NameSpec, jen_Dot ''NonPortableClassReference'']]]]\<rparr>]"
  by (simp add: NewGetNonPortableClassReference_def declared_append declared_Commentf declared_single
      method_decl_def pointer_receiver_def Let_def)

lemma NewSetPortableClassReference_declares:
  "declared (NewSetPortableClassReference receiver core f ob) =
     declared f @
       [\<lparr>d_receiver = pointer_receiver receiver ob,
         d_name = ''SetPortableClassReference'',
         d_params = [[jen_Id ''r'', jen_Op ''*'', jen_Qual core ''LocalObjectReference'']],
         d_result = [],
         d_body =
          [[jen_Id receiver, jen_Dot fields_NameSpec, jen_Dot ''PortableClassReference'', jen_Op ''='',
            jen_Id ''r'']]\<rparr>]"
  by (simp add: NewSetPortableClassReference_def declared_append declared_Commentf declared_single
      method_decl_def pointer_receiver_def Let_def)

lemma NewGetPortableClassReference_declares:
  "declared (NewGetPortableClassReference receiver core f ob) =
     declared f @
       [\<lparr>d_receiver = pointer_receiver receiver ob,
         d_name = ''GetPortableClassReference'',
         d_params = [],
         d_result = [jen_Op ''*'', jen_Qual core ''LocalObjectReference''],
         d_body =
          [[jen_Return [[jen_Id receiver, jen_Dot fields_NameSpec, jen_Dot ''PortableClassReference'']]]]\<rparr>]"
  by (simp add: NewGetPortableClassReference_def declared_append declared_Commentf declared_single
      method_decl_def pointer_receiver_def Let_def)

lemma NewSetWriteConnectionSecretToReference_declares:
  "declared (NewSetWriteConnectionSecretToReference receiver core f ob) =
     declared f @
       [\<lparr>d_receiver = pointer_receiver receiver ob,
         d_name = ''SetWriteConnectionSecretToReference'',
         d_params = [[jen_Id ''r'', jen_Qual core ''LocalObjectReference'']],
         d_result = [],
         d_body =
          [[jen_Id receiver, jen_Dot fields_NameSpec, jen_Dot ''WriteConnectionSecretToReference'', jen_Op ''='',
            jen_Id ''r'']]\<rparr>]"
  by (simp add: NewSetWriteConnectionSecretToReference_def declared_append declared_Commentf declared_single
      method_decl_def pointer_receiver_def Let_def)

lemma NewGetWriteConnectionSecretToReference_declares:
  "declared (NewGetWriteConnectionSecretToReference receiver core f ob) =
     declared f @
       [\<lparr>d_receiver = pointer_receiver receiver ob,
         d_name = ''GetWriteConnectionSecretToReference'',
         d_params = [],
         d_result = [jen_Qual core ''LocalObjectReference''],
         d_body =
          [[jen_Return [[jen_Id receiver, jen_Dot fields_NameSpec, jen_Dot ''WriteConnectionSecretToReference'']]]]\<rparr>]"
  by (simp add: NewGetWriteConnectionSecretToReference_def declared_append declared_Commentf declared_single
      method_decl_def pointer_receiver_def Let_def)

lemma NewSetReclaimPolicy_declares:
  "declared (NewSetReclaimPolicy receiver core field f ob) =
     declared f @
       [\<lparr>d_receiver = pointer_receiver receiver ob,
         d_name = ''SetReclaimPolicy'',
         d_params = [[jen_Id ''r'', jen_Qual core ''ReclaimPolicy'']],
         d_result = [],
         d_body =
          [[jen_Id receiver, jen_Dot field, jen_Dot ''ReclaimPolicy'', jen_Op ''='', jen_Id ''r'']]\<rparr>]"
  by (simp add: NewSetReclaimPolicy_def declared_append declared_Commentf declared_single
      method_decl_def pointer_receiver_def Let_def)

lemma NewGetReclaimPolicy_declares:
  "declared (NewGetReclaimPolicy receiver runtime field f ob) =
     declared f @
       [\<lparr>d_receiver = pointer_receiver receiver ob,
         d_name = ''GetReclaimPolicy'',
         d_params = [],
         d_result = [jen_Qual runtime ''ReclaimPolicy''],
         d_body =
          [[jen_Return [[jen_Id receiver, jen_Dot field, jen_Dot ''ReclaimPolicy'']]]]\<rparr>]"
  by (simp add: NewGetReclaimPolicy_def declared_append declared_Commentf declared_single
      method_decl_def pointer_receiver_def Let_def)

lemma NewSetPortableClassItems_declares:
  "declared (NewSetPortableClassItems receiver resource f ob) =
     declared f @
       [\<lparr>d_receiver = pointer_receiver receiver ob,
         d_name = ''SetPortableClassItems'',
         d_params = [[jen_Id ''i'', jen_Index [], jen_Qual resource ''PortableClass'']],
         d_result = [],
         d_body =
          [[jen_Id receiver, jen_Dot ''Items'', jen_Op ''='',
            jen_Make [[jen_Index [], jen_Id (TrimSuffix (o_Name ob) ''List'')], [jen_Id ''0''], [jen_Len [jen_Id ''i'']]]],
           [jen_For [[jen_Id ''j'', jen_Op '':='', jen_Range, jen_Id ''i'']],
            jen_Block
             [[jen_If
                [[jen_List [[jen_Id ''actual''], [jen_Id ''ok'']], jen_Op '':='', jen_Id ''i'',
                  jen_Index [[jen_Id ''j'']], jen_Assert [jen_Op ''*'', jen_Id (TrimSuffix (o_Name ob) ''List'')]],
                 [jen_Id ''ok'']],
               jen_Block
                [[jen_Id receiver, jen_Dot ''Items'', jen_Op ''='',
                  jen_Append
                   [[jen_Id receiver, jen_Dot ''Items''],
                    [jen_Op ''*'', jen_Id ''actual'']]]]]]]]\<rparr>]"
  by (simp add: NewSetPortableClassItems_def declared_append declared_Commentf declared_single
      method_decl_def pointer_receiver_def Let_def)

lemma NewGetPortableClassItems_declares:
  "declared (NewGetPortableClassItems receiver resource f ob) =
     declared f @
       [\<lparr>d_receiver = pointer_receiver receiver ob,
         d_name = ''GetPortableClassItems'',
         d_params = [],
         d_result = [jen_Index [], jen_Qual resource ''PortableClass''],
         d_body =
          [[jen_Id ''items'', jen_Op '':='',
            jen_Make
             [[jen_Index [], jen_Qual resource ''PortableClass''],
              [jen_Len [jen_Id receiver, jen_Dot ''Items'']]]],
           [jen_For [[jen_Id ''i'', jen_Op '':='', jen_Range, jen_Id receiver, jen_Dot ''Items'']],
            jen_Block
             [[jen_Id ''items'', jen_Index [[jen_Id ''i'']], jen_Op ''='',
               jen_Qual resource ''PortableClass'',
               jen_Call
                [[jen_Op ''&'', jen_Id receiver, jen_Dot ''Items'',
                  jen_Index [[jen_Id ''i'']]]]]]],
           [jen_Return [[jen_Id ''items'']]]]\<rparr>]"
  by (simp add: NewGetPortableClassItems_def declared_append declared_Commentf declared_single
      method_decl_def pointer_receiver_def Let_def)

lemmas generators_declare =
  NewSetConditions_declares NewGetCondition_declares
  NewSetBindingPhase_declares NewGetBindingPhase_declares
  NewSetClaimReference_declares NewGetClaimReference_declares
  NewSetResourceReference_declares NewGetResourceReference_declares
  NewSetNonPortableClassReference_declares NewGetNonPortableClassReference_declares
  NewSetPortableClassReference_declares NewGetPortableClassReference_declares
  NewSetWriteConnectionSecretToReference_declares NewGetWriteConnectionSecretToReference_declares
  NewSetReclaimPolicy_declares NewGetReclaimPolicy_declares
  NewSetPortableClassItems_declares NewGetPortableClassItems_declares

subsection \<open>Write and the filter\<close>

lemma range_of_same_dom: "range_of s keys \<Longrightarrow> dom s' = dom s \<Longrightarrow> range_of s' keys"
  by (simp add: range_of_def)

lemma foldl_generators_cong:
  "(\<And>name. name \<in> set names \<Longrightarrow> s' name = s name) \<Longrightarrow>
   foldl (\<lambda>f name. the (s' name) f ob) f names = foldl (\<lambda>f name. the (s name) f ob) f names"
  by (induction names arbitrary: f) simp_all

lemma foldl_declared_names:
  "(\<And>name f'. name \<in> set names \<Longrightarrow>
      map d_name (declared (the (s name) f' ob)) = map d_name (declared f') @ [name]) \<Longrightarrow>
   map d_name (declared (foldl (\<lambda>f name. the (s name) f ob) f names))
     = map d_name (declared f) @ names"
  by (induction names arbitrary: f) simp_all

text \<open>
  C3. \<^verbatim>\<open>Write\<close> returns, and the file it leaves is what the generators of the names the
  filter lets through write, one after the other in increasing order of the names. The
  generator of a filtered name is not called: the file is the same whatever is registered
  under the filtered names, and when every name is filtered the file is left as it was.
  When each generator declares one method, of the name it is registered under, the file
  gains one declaration for each name that is let through and none for the others.
\<close>

theorem Write_filtered:
  assumes "range_of s keys"
  shows "Write keys s f ob mf =
      Inr (foldl (\<lambda>f name. the (s name) f ob) f
             (filter (\<lambda>name. \<not> mf ob name) (sorted_list_of_set (dom s))))
    \<and> (\<forall>s'. dom s' = dom s \<and> (\<forall>name. \<not> mf ob name \<longrightarrow> s' name = s name)
          \<longrightarrow> Write keys s' f ob mf = Write keys s f ob mf)
    \<and> ((\<forall>name \<in> dom s. mf ob name) \<longrightarrow> Write keys s f ob mf = Inr f)
    \<and> ((\<forall>name new f'. s name = Some new
            \<longrightarrow> map d_name (declared (new f' ob)) = map d_name (declared f') @ [name])
         \<longrightarrow> (\<exists>out. Write keys s f ob mf = Inr out
               \<and> map d_name (declared out) =
                   map d_name (declared f) @
                   filter (\<lambda>name. \<not> mf ob name) (sorted_list_of_set (dom s))))"
proof -
  let ?names = "filter (\<lambda>name. \<not> mf ob name) (sorted_list_of_set (dom s))"
  note fold = Write_fold [OF assms]
  have names: "set ?names = {name \<in> dom s. \<not> mf ob name}"
    using finite_dom_range [OF assms] by auto
  have independent: "Write keys s' f ob mf = Write keys s f ob mf"
    if "dom s' = dom s" and "\<forall>name. \<not> mf ob name \<longrightarrow> s' name = s name" for s'
  proof -
    have "foldl (\<lambda>f name. the (s' name) f ob) f ?names
        = foldl (\<lambda>f name. the (s name) f ob) f ?names"
      by (rule foldl_generators_cong) (use that(2) in simp)
    then show ?thesis
      by (simp add: fold Write_fold [OF range_of_same_dom [OF assms that(1)]] that(1))
  qed
  have all_filtered: "Write keys s f ob mf = Inr f" if "\<forall>name \<in> dom s. mf ob name"
  proof -
    from that names have "?names = []"
      by (metis (mono_tags, lifting) empty_Collect_eq set_empty)
    then show ?thesis
      by (simp add: fold)
  qed
  have one_each: "\<exists>out. Write keys s f ob mf = Inr out
      \<and> map d_name (declared out) = map d_name (declared f) @ ?names"
    if each: "\<forall>name new f'. s name = Some new
      \<longrightarrow> map d_name (declared (new f' ob)) = map d_name (declared f') @ [name]"
  proof -
    have "map d_name (declared (foldl (\<lambda>f name. the (s name) f ob) f ?names))
        = map d_name (declared f) @ ?names"
    proof (rule foldl_declared_names)
      fix name f'
      assume "name \<in> set ?names"
      with names obtain new where "s name = Some new"
        by auto
      with each
      show "map d_name (declared (the (s name) f' ob)) = map d_name (declared f') @ [name]"
        by simp
    qed
    then show ?thesis
      by (simp add: fold)
  qed
  have c1: "Write keys s f ob mf = Inr (foldl (\<lambda>f name. the (s name) f ob) f ?names)"
    by (rule fold)
  have c2: "\<forall>s'. dom s' = dom s \<and> (\<forall>name. \<not> mf ob name \<longrightarrow> s' name = s name)
      \<longrightarrow> Write keys s' f ob mf = Write keys s f ob mf"
    using independent by blast
  have c3: "(\<forall>name \<in> dom s. mf ob name) \<longrightarrow> Write keys s f ob mf = Inr f"
    using all_filtered by blast
  have c4: "(\<forall>name new f'. s name = Some new
        \<longrightarrow> map d_name (declared (new f' ob)) = map d_name (declared f') @ [name])
      \<longrightarrow> (\<exists>out. Write keys s f ob mf = Inr out
            \<and> map d_name (declared out) = map d_name (declared f) @ ?names)"
    using one_each by blast
  show ?thesis
    by (rule conjI [OF c1 conjI [OF c2 conjI [OF c3 c4]]])
qed

text \<open>
  The registry \<open>bucket_set\<close> on the example program, writing \<^verbatim>\<open>zz_generated.go\<close>:
  \<^verbatim>\<open>SetConditions\<close> is written by hand in \<^verbatim>\<open>manual.go\<close> and is filtered, so the
  file is the same with another generator in its place; with a filter that holds back
  every name the file stays empty.
\<close>

theorem Write_filtered_witness:
  "range_of bucket_set [''SetConditions'', ''GetBindingPhase'', ''SetBindingPhase'']
   \<and> Write [''SetConditions'', ''GetBindingPhase'', ''SetBindingPhase''] bucket_set []
        BucketList (DefinedOutside bucket_methods two_files ''zz_generated.go'')
     = Inr (NewSetBindingPhase ''b'' ''runtime''
             (NewGetBindingPhase ''b'' ''runtime'' [] BucketList) BucketList)
   \<and> Write [''SetConditions'', ''GetBindingPhase'', ''SetBindingPhase'']
        (bucket_set(''SetConditions'' \<mapsto> mark ''other'')) []
        BucketList (DefinedOutside bucket_methods two_files ''zz_generated.go'')
     = Write [''SetConditions'', ''GetBindingPhase'', ''SetBindingPhase''] bucket_set []
        BucketList (DefinedOutside bucket_methods two_files ''zz_generated.go'')
   \<and> map d_name (declared (projr
        (Write [''SetConditions'', ''GetBindingPhase'', ''SetBindingPhase''] bucket_set []
           BucketList (DefinedOutside bucket_methods two_files ''zz_generated.go''))))
     = [''GetBindingPhase'', ''SetBindingPhase'']
   \<and> Write [''SetConditions'', ''GetBindingPhase'', ''SetBindingPhase''] bucket_set []
        BucketList (\<lambda>ob name. True) = Inr []"
proof -
  let ?keys = "[''SetConditions'', ''GetBindingPhase'', ''SetBindingPhase'']"
  let ?mf = "DefinedOutside bucket_methods two_files ''zz_generated.go''"
  have keys: "range_of bucket_set ?keys"
    by (auto simp: range_of_def bucket_set_def)
  have dom: "dom bucket_set = {''SetConditions'', ''GetBindingPhase'', ''SetBindingPhase''}"
    by (auto simp: bucket_set_def)
  have sorted: "sorted_list_of_set (dom bucket_set)
      = [''GetBindingPhase'', ''SetBindingPhase'', ''SetConditions'']"
    by (rule sorted_list_of_set_eqI) (auto simp: dom)
  have mf: "?mf BucketList ''SetConditions''" "\<not> ?mf BucketList ''GetBindingPhase''"
      "\<not> ?mf BucketList ''SetBindingPhase''"
    by (simp_all add: DefinedOutside_iff bucket_methods_def two_files_def BucketList_def)
  have other: "dom (bucket_set(''SetConditions'' \<mapsto> mark ''other'')) = dom bucket_set"
      "\<forall>name. \<not> ?mf BucketList name
         \<longrightarrow> (bucket_set(''SetConditions'' \<mapsto> mark ''other'')) name = bucket_set name"
    using mf(1) by (auto simp: dom)
  have each: "\<forall>name new f'. bucket_set name = Some new
      \<longrightarrow> map d_name (declared (new f' BucketList)) = map d_name (declared f') @ [name]"
    by (auto simp: bucket_set_def generators_declare split: if_splits)
  note filtered = Write_filtered [OF keys, of "[]" BucketList ?mf]
  from filtered have written: "Write ?keys bucket_set [] BucketList ?mf
      = Inr (NewSetBindingPhase ''b'' ''runtime''
              (NewGetBindingPhase ''b'' ''runtime'' [] BucketList) BucketList)"
    by (simp add: sorted mf) (simp add: bucket_set_def)
  from filtered other
  have unused: "Write ?keys (bucket_set(''SetConditions'' \<mapsto> mark ''other'')) [] BucketList ?mf
      = Write ?keys bucket_set [] BucketList ?mf"
    by blast
  from filtered each
  have "\<exists>out. Write ?keys bucket_set [] BucketList ?mf = Inr out
      \<and> map d_name (declared out) = map d_name (declared []) @
          filter (\<lambda>name. \<not> ?mf BucketList name) (sorted_list_of_set (dom bucket_set))"
    by blast
  then have names: "map d_name (declared (projr (Write ?keys bucket_set [] BucketList ?mf)))
      = [''GetBindingPhase'', ''SetBindingPhase'']"
    by (auto simp: sorted mf declared_def)
  from Write_filtered [OF keys, of "[]" BucketList "\<lambda>ob name. True"]
  have silent: "Write ?keys bucket_set [] BucketList (\<lambda>ob name. True) = Inr []"
    by simp
  from keys written unused names silent show ?thesis
    by simp
qed

subsection \<open>The shape of the generated methods\<close>



text \<open>
  The Get generators of the accessor family other than \<^verbatim>\<open>NewGetCondition\<close>: the method
  takes no parameter, has a result type, and its body returns the expression that starts
  at the receiver and the configured field.
\<close>

lemma Get_family_returns:
  "(let d = last (declared (NewGetBindingPhase receiver pkg f ob))
       in d_params d = [] \<and> d_result d \<noteq> []
          \<and> returned (d_body d) = Some [jen_Id receiver, jen_Dot fields_NameStatus, jen_Dot ''GetBindingPhase'', jen_Call []])
    \<and> (let d = last (declared (NewGetClaimReference receiver pkg f ob))
       in d_params d = [] \<and> d_result d \<noteq> []
          \<and> returned (d_body d) = Some [jen_Id receiver, jen_Dot fields_NameSpec, jen_Dot ''ClaimReference''])
    \<and> (let d = last (declared (NewGetResourceReference receiver pkg f ob))
       in d_params d = [] \<and> d_result d \<noteq> []
          \<and> returned (d_body d) = Some [jen_Id receiver, jen_Dot fields_NameSpec, jen_Dot ''ResourceReference''])
    \<and> (let d = last (declared (NewGetNonPortableClassReference receiver pkg f ob))
       in d_params d = [] \<and> d_result d \<noteq> []
          \<and> returned (d_body d) = Some [jen_Id receiver, jen_Dot fields_NameSpec, jen_Dot ''NonPortableClassReference''])
    \<and> (let d = last (declared (NewGetPortableClassReference receiver pkg f ob))
       in d_params d = [] \<and> d_result d \<noteq> []
          \<and> returned (d_body d) = Some [jen_Id receiver, jen_Dot fields_NameSpec, jen_Dot ''PortableClassReference''])
    \<and> (let d = last (declared (NewGetWriteConnectionSecretToReference receiver pkg f ob))
       in d_params d = [] \<and> d_result d \<noteq> []
          \<and> returned (d_body d) = Some [jen_Id receiver, jen_Dot fields_NameSpec, jen_Dot ''WriteConnectionSecretToReference''])
    \<and> (let d = last (declared (NewGetReclaimPolicy receiver pkg field f ob))
       in d_params d = [] \<and> d_result d \<noteq> []
          \<and> returned (d_body d) = Some [jen_Id receiver, jen_Dot field, jen_Dot ''ReclaimPolicy''])"
  by (simp add: generators_declare returned_def)

text \<open>
  C7. Every Get generator of the accessor family, \<^verbatim>\<open>NewGetCondition\<close> among them,
  should declare a method with a result type that returns the value at its field path and
  takes no parameter. \<^verbatim>\<open>NewGetCondition\<close> does not: for every configuration, file and
  object its method takes the variadic parameter \<^verbatim>\<open>c ...Condition\<close>, has no result
  type, and its body is the one call \<^verbatim>\<open>receiver.Status.GetCondition(c...)\<close> with no
  \<^verbatim>\<open>return\<close>: the body of \<^verbatim>\<open>NewSetConditions\<close> under another name.
\<close>

theorem NewGetCondition_returns_nothing:
  "(let d = last (declared (NewGetCondition receiver runtime f ob))
    in d_name d = ''GetCondition''
       \<and> d_params d = [[jen_Id ''c'', jen_Op ''...'', jen_Qual runtime ''Condition'']]
       \<and> d_result d = []
       \<and> returned (d_body d) = None
       \<and> d_body d =
           [[jen_Id receiver, jen_Dot ''Status'', jen_Dot ''GetCondition'',
             jen_Call [[jen_Id ''c'', jen_Op ''...'']]]])
   \<and> d_params (last (declared (NewGetCondition receiver runtime f ob)))
       = d_params (last (declared (NewSetConditions receiver runtime f ob)))
   \<and> d_result (last (declared (NewGetCondition receiver runtime f ob)))
       = d_result (last (declared (NewSetConditions receiver runtime f ob)))
   \<and> NewGetCondition ''b'' ''runtime'' [] BucketList =
       [[jen_Comment ''GetCondition of this BucketList.''],
        [jen_Func, jen_Params [[jen_Id ''b'', jen_Op ''*'', jen_Id ''BucketList'']],
         jen_Id ''GetCondition'',
         jen_Params [[jen_Id ''c'', jen_Op ''...'', jen_Qual ''runtime'' ''Condition'']],
         jen_Block
          [[jen_Id ''b'', jen_Dot ''Status'', jen_Dot ''GetCondition'',
            jen_Call [[jen_Id ''c'', jen_Op ''...'']]]]]]"
proof -
  have "NewGetCondition ''b'' ''runtime'' [] BucketList =
       [[jen_Comment ''GetCondition of this BucketList.''],
        [jen_Func, jen_Params [[jen_Id ''b'', jen_Op ''*'', jen_Id ''BucketList'']],
         jen_Id ''GetCondition'',
         jen_Params [[jen_Id ''c'', jen_Op ''...'', jen_Qual ''runtime'' ''Condition'']],
         jen_Block
          [[jen_Id ''b'', jen_Dot ''Status'', jen_Dot ''GetCondition'',
            jen_Call [[jen_Id ''c'', jen_Op ''...'']]]]]]"
    by (simp add: NewGetCondition_def Commentf_def BucketList_def fields_NameStatus_def)
  then show ?thesis
    by (simp add: generators_declare returned_def fields_NameStatus_def)
qed

subsection \<open>TrimSuffix\<close>

lemma HasSuffix_suffix: "HasSuffix s sfx \<longleftrightarrow> suffix sfx s"
  unfolding HasSuffix_def suffix_def
  by (metis append_eq_conv_conj append_take_drop_id diff_add_inverse2 le_add2 length_append
      length_drop)

text \<open>
  C10. When the name of the object does not end in \<^verbatim>\<open>List\<close>, the element type name
  \<^verbatim>\<open>NewSetPortableClassItems\<close> derives is the name of the object itself, and the
  generator writes its comment and its method all the same, with that name in the
  \<^verbatim>\<open>make\<close> and in the type assertion: nothing checks the suffix.
\<close>

theorem NewSetPortableClassItems_without_List:
  assumes "\<not> suffix ''List'' (o_Name ob)"
  shows "TrimSuffix (o_Name ob) ''List'' = o_Name ob
    \<and> NewSetPortableClassItems receiver resource f ob =
        f @
        [[jen_Comment (''SetPortableClassItems of this '' @ o_Name ob @ ''.'')],
         [jen_Func, jen_Params [[jen_Id receiver, jen_Op ''*'', jen_Id (o_Name ob)]],
          jen_Id ''SetPortableClassItems'',
          jen_Params [[jen_Id ''i'', jen_Index [], jen_Qual resource ''PortableClass'']],
          jen_Block
           [[jen_Id receiver, jen_Dot ''Items'', jen_Op ''='',
             jen_Make
              [[jen_Index [], jen_Id (o_Name ob)], [jen_Id ''0''], [jen_Len [jen_Id ''i'']]]],
            [jen_For [[jen_Id ''j'', jen_Op '':='', jen_Range, jen_Id ''i'']],
             jen_Block
              [[jen_If
                 [[jen_List [[jen_Id ''actual''], [jen_Id ''ok'']], jen_Op '':='', jen_Id ''i'',
                   jen_Index [[jen_Id ''j'']], jen_Assert [jen_Op ''*'', jen_Id (o_Name ob)]],
                  [jen_Id ''ok'']],
                jen_Block
                 [[jen_Id receiver, jen_Dot ''Items'', jen_Op ''='',
                   jen_Append
                    [[jen_Id receiver, jen_Dot ''Items''],
                     [jen_Op ''*'', jen_Id ''actual'']]]]]]]]]]"
proof -
  from assms have "TrimSuffix (o_Name ob) ''List'' = o_Name ob"
    by (simp add: TrimSuffix_def HasSuffix_suffix)
  then show ?thesis
    by (simp add: NewSetPortableClassItems_def Commentf_def Let_def)
qed

text \<open>
  The object \<^verbatim>\<open>Bucket\<close>: the method is declared on \<^verbatim>\<open>*Bucket\<close> and makes a
  \<^verbatim>\<open>[]Bucket\<close>.
\<close>

theorem NewSetPortableClassItems_without_List_witness:
  "\<not> suffix ''List'' (o_Name Bucket)
   \<and> TrimSuffix (o_Name Bucket) ''List'' = ''Bucket''
   \<and> NewSetPortableClassItems ''b'' ''resource'' [] Bucket =
        [[jen_Comment ''SetPortableClassItems of this Bucket.''],
         [jen_Func, jen_Params [[jen_Id ''b'', jen_Op ''*'', jen_Id ''Bucket'']],
          jen_Id ''SetPortableClassItems'',
          jen_Params [[jen_Id ''i'', jen_Index [], jen_Qual ''resource'' ''PortableClass'']],
          jen_Block
           [[jen_Id ''b'', jen_Dot ''Items'', jen_Op ''='',
             jen_Make
              [[jen_Index [], jen_Id ''Bucket''], [jen_Id ''0''], [jen_Len [jen_Id ''i'']]]],
            [jen_For [[jen_Id ''j'', jen_Op '':='', jen_Range, jen_Id ''i'']],
             jen_Block
              [[jen_If
                 [[jen_List [[jen_Id ''actual''], [jen_Id ''ok'']], jen_Op '':='', jen_Id ''i'',
                   jen_Index [[jen_Id ''j'']], jen_Assert [jen_Op ''*'', jen_Id ''Bucket'']],
                  [jen_Id ''ok'']],
                jen_Block
                 [[jen_Id ''b'', jen_Dot ''Items'', jen_Op ''='',
                   jen_Append
                    [[jen_Id ''b'', jen_Dot ''Items''],
                     [jen_Op ''*'', jen_Id ''actual'']]]]]]]]]]"
proof -
  have name: "\<not> suffix ''List'' (o_Name Bucket)"
    by (simp add: Bucket_def suffix_def)
  from NewSetPortableClassItems_without_List [OF name, of "''b''" "''resource''" "[]"] name
  show ?thesis
    by (simp add: Bucket_def)
qed

subsection \<open>The generated SetPortableClassItems\<close>

text \<open>
  Writing the cell behind \<open>k\<close> values in an array of \<open>c\<close> cells that starts at the
  address \<open>length h0\<close>.
\<close>

lemma write_behind:
  assumes "length vs = k" and "k < c"
  shows "(h0 @ vs @ replicate (c - k) z)[length h0 + k := v]
    = h0 @ (vs @ [v]) @ replicate (c - Suc k) z"
proof -
  from assms(2) have "replicate (c - k) z = z # replicate (c - Suc k) z"
    by (metis Suc_diff_Suc replicate_Suc)
  then show ?thesis
    using assms(1) by (simp add: list_update_append)
qed









subsection \<open>The generated GetPortableClassItems\<close>

text \<open>
  The loop, on the new array \<open>length ih0\<close> of \<open>n\<close> cells of which the first \<open>i\<close> hold
  \<open>ps\<close>: it writes the addresses of \<^verbatim>\<open>Items[i]\<close> to \<^verbatim>\<open>Items[n-1]\<close> into the rest.
\<close>

lemma Get_loop_fills:
  assumes "n = len s" and "length ps = i" and "i \<le> n"
  shows "Get_loop s T \<lparr>array = length ih0, len = n, cap = n\<rparr>
           (ih0 @ ps @ replicate (n - i) z) i n
    = Inr (ih0 @ ps @ map (\<lambda>j. PointerValue T (Some (array s + j))) [i..<n])"
  using assms
proof (induction "n - i" arbitrary: i ps)
  case 0
  then show ?case
    by (subst Get_loop.simps) simp
next
  case (Suc d)
  let ?items = "\<lparr>array = length ih0, len = n, cap = n\<rparr>"
  let ?v = "PointerValue T (Some (array s + i))"
  from Suc.hyps(2) have i: "i < n"
    by simp
  have written: "store (ih0 @ ps @ replicate (n - i) z) (Some (length ih0 + i)) ?v
      = Inr (ih0 @ (ps @ [?v]) @ replicate (n - Suc i) z)"
    using i Suc.prems(2) by (simp add: store_def write_behind)
  have "Get_loop s T ?items (ih0 @ ps @ replicate (n - i) z) i n
      = Get_loop s T ?items (ih0 @ (ps @ [?v]) @ replicate (n - Suc i) z) (Suc i) n"
    using i Suc.prems(1) written
    by (subst Get_loop.simps) (simp add: index_addr_def)
  also have "\<dots> = Inr (ih0 @ (ps @ [?v])
      @ map (\<lambda>j. PointerValue T (Some (array s + j))) [Suc i..<n])"
    using Suc.hyps(2) Suc.prems i by (intro Suc.hyps(1)) simp_all
  finally show ?case
    using i by (simp add: upt_conv_Cons)
qed

lemma GetPortableClassItems_Some:
  "GetPortableClassItems T (Some r) h ih
    = Inr (\<lparr>array = length ih, len = len (Items r), cap = len (Items r)\<rparr>, r, h,
           ih @ map (\<lambda>i. PointerValue T (Some (array (Items r) + i))) [0..<len (Items r)])"
  using Get_loop_fills [of "len (Items r)" "Items r" "[]" 0 T ih nil_PortableClass]
  by (simp add: GetPortableClassItems_def make_slice_def Let_def)

lemma elements_new:
  "length vs = n \<Longrightarrow> elements (h @ vs @ rest) \<lparr>array = length h, len = n, cap = c\<rparr> = vs"
  by (simp add: elements_def)

lemma elements_nth:
  assumes "in_heap s h" and "i < len s"
  shows "elements h s ! i = h ! (array s + i)"
  using assms by (simp add: elements_def in_heap_def)

lemma elements_written:
  assumes "in_heap s h" and "i < len s"
  shows "elements (h[array s + i := v]) s ! i = v"
  using assms by (simp add: elements_def in_heap_def)

text \<open>
  C5, as the code has it. On a receiver that is not nil the generated
  \<^verbatim>\<open>GetPortableClassItems\<close> returns, whatever the memory holds. It leaves the receiver
  and the cells in use as they were and returns a new slice as long as the receiver's
  \<^verbatim>\<open>Items\<close>, whose element \<open>i\<close> has the dynamic type pointer to the element type of
  \<^verbatim>\<open>Items\<close> and is the address of \<^verbatim>\<open>Items[i]\<close>, in the order of the indices. It is
  that cell and no copy: reading through the pointer gives \<^verbatim>\<open>Items[i]\<close>, and a value
  written through it is the new \<^verbatim>\<open>Items[i]\<close>.
\<close>

theorem GetPortableClassItems_views:
  "(let n = len (Items r);
        items = \<lparr>array = length ih, len = n, cap = n\<rparr>;
        ih' = ih @ map (\<lambda>i. PointerValue T (Some (array (Items r) + i))) [0..<n]
    in GetPortableClassItems T (Some r) h ih = Inr (items, r, h, ih')
       \<and> length (elements ih' items) = len (Items r)
       \<and> (\<forall>i < len (Items r).
            elements ih' items ! i = PointerValue T (Some (array (Items r) + i))
            \<and> (in_heap (Items r) h
                 \<longrightarrow> deref h (Some (array (Items r) + i)) = Inr (elements h (Items r) ! i)
                   \<and> (\<forall>v. store h (Some (array (Items r) + i)) v
                             = Inr (h[array (Items r) + i := v])
                           \<and> elements (h[array (Items r) + i := v]) (Items r) ! i = v))))"
proof -
  let ?n = "len (Items r)"
  let ?ps = "map (\<lambda>i. PointerValue T (Some (array (Items r) + i))) [0..<?n]"
  have new: "elements (ih @ ?ps) \<lparr>array = length ih, len = ?n, cap = ?n\<rparr> = ?ps"
    using elements_new [of ?ps ?n ih "[]" ?n] by simp
  have cell: "array (Items r) + i < length h" if "in_heap (Items r) h" and "i < ?n" for i
    using that by (simp add: in_heap_def)
  have view: "deref h (Some (array (Items r) + i)) = Inr (elements h (Items r) ! i)
      \<and> (\<forall>v. store h (Some (array (Items r) + i)) v = Inr (h[array (Items r) + i := v])
            \<and> elements (h[array (Items r) + i := v]) (Items r) ! i = v)"
    if "in_heap (Items r) h" and "i < ?n" for i
    using that cell [OF that] by (simp add: deref_def store_def elements_nth elements_written)
  show ?thesis
    using view by (simp add: Let_def GetPortableClassItems_Some new)
qed

text \<open>
  The list of two items at the addresses 1 and 2 of the heap \<open>[10, 20, 30, 40]\<close>: the
  second pointer reads 30, and 99 written through it is the second item.
\<close>

theorem GetPortableClassItems_views_witness:
  "GetPortableClassItems (Named ''Bucket'') (Some two_items) [10, 20, 30, 40 :: nat] []
     = Inr (\<lparr>array = 0, len = 2, cap = 2\<rparr>, two_items, [10, 20, 30, 40],
            [PointerValue (Named ''Bucket'') (Some 1), PointerValue (Named ''Bucket'') (Some 2)])
   \<and> deref [10, 20, 30, 40 :: nat] (Some 2) = Inr 30
   \<and> store [10, 20, 30, 40 :: nat] (Some 2) 99 = Inr [10, 20, 99, 40]
   \<and> elements [10, 20, 99, 40 :: nat] (Items two_items) ! 1 = 99"
proof -
  let ?h = "[10, 20, 30, 40 :: nat]"
  have placed: "in_heap (Items two_items) ?h" and two: "len (Items two_items) = 2"
      and first: "array (Items two_items) = 1"
    by (simp_all add: in_heap_def two_items_def)
  have upt: "[0..<2] = [0, 1]"
    by (simp add: upt_rec)
  from GetPortableClassItems_views [of two_items "[]" "Named ''Bucket''" ?h]
  have got: "GetPortableClassItems (Named ''Bucket'') (Some two_items) ?h []
      = Inr (\<lparr>array = 0, len = 2, cap = 2\<rparr>, two_items, ?h,
             [PointerValue (Named ''Bucket'') (Some 1), PointerValue (Named ''Bucket'') (Some 2)])"
    and each: "\<forall>i < 2. deref ?h (Some (1 + i)) = Inr (elements ?h (Items two_items) ! i)
        \<and> (\<forall>v. store ?h (Some (1 + i)) v = Inr (?h[1 + i := v])
              \<and> elements (?h[1 + i := v]) (Items two_items) ! i = v)"
    using placed by (simp_all add: Let_def two first upt)
  have second: "(1 :: nat) < 2"
    by simp
  from each [rule_format, OF second]
  have "deref ?h (Some 2) = Inr (elements ?h (Items two_items) ! 1)"
    and "store ?h (Some 2) 99 = Inr (?h[2 := 99])"
    and "elements (?h[2 := 99]) (Items two_items) ! 1 = 99"
    by (simp_all add: numeral_2_eq_2)
  with got show ?thesis
    by (simp add: elements_def two_items_def numeral_2_eq_2)
qed

text \<open>
  C5, as the claim has it, fails: on a nil receiver the method panics at
  \<^verbatim>\<open>len(r.Items)\<close> and returns nothing.
\<close>

theorem GetPortableClassItems_nil_receiver:
  "GetPortableClassItems (Named ''Bucket'') (None :: ClassList option) [10, 20, 30, 40 :: nat] []
     = Inl NilDereference"
  by (simp add: GetPortableClassItems_def)

text \<open>
  C8. A call of the generated \<^verbatim>\<open>GetPortableClassItems\<close> that returns leaves the
  receiver's struct and the cells in use as they were, and a second call on the same
  receiver, with no \<^verbatim>\<open>SetPortableClassItems\<close> in between, returns as well: another
  slice, of the same elements as the first, which still holds them. The only call that
  does not return is the one on a nil receiver.
\<close>

theorem GetPortableClassItems_twice:
  "(case GetPortableClassItems T receiver h ih of
      Inl e \<Rightarrow> receiver = None \<and> e = NilDereference
    | Inr (items, r', h', ih') \<Rightarrow>
        receiver = Some r' \<and> h' = h \<and> take (length ih) ih' = ih
        \<and> (case GetPortableClassItems T receiver h' ih' of
             Inl e \<Rightarrow> False
           | Inr (items2, r'', h'', ih'') \<Rightarrow>
               r'' = r' \<and> h'' = h \<and> take (length ih') ih'' = ih'
               \<and> elements ih'' items2 = elements ih' items
               \<and> elements ih'' items = elements ih' items))"
proof (cases receiver)
  case None
  then show ?thesis
    by (simp add: GetPortableClassItems_def)
next
  case (Some r)
  let ?n = "len (Items r)"
  let ?ps = "map (\<lambda>i. PointerValue T (Some (array (Items r) + i))) [0..<?n]"
  have "elements (ih @ ?ps) \<lparr>array = length ih, len = ?n, cap = ?n\<rparr> = ?ps"
    and "elements ((ih @ ?ps) @ ?ps) \<lparr>array = length (ih @ ?ps), len = ?n, cap = ?n\<rparr> = ?ps"
    and "elements ((ih @ ?ps) @ ?ps) \<lparr>array = length ih, len = ?n, cap = ?n\<rparr> = ?ps"
    by (simp_all add: elements_def)
  with Some show ?thesis
    by (simp add: GetPortableClassItems_Some)
qed
end
